theory Spec2Isabelle
  imports Complex_Main
begin

section \<open>Python values, errors and tensors\<close>

text \<open>
  Every exception the modelled code can raise is a value of \<open>error\<close>; a function that
  can raise returns \<open>error + 'a\<close> with \<open>Inl\<close> for the exception.  \<open>Exception\<close> carries the
  message of a \<^verbatim>\<open>raise Exception("...")\<close>, \<open>AttributeError\<close> and \<open>KeyError\<close> the name or
  key that was looked up.
\<close>

datatype error =
    Exception string
  | AssertionError
  | AttributeError string
  | KeyError string
  | IndexError
  | TypeError string
  | RuntimeError string
  | ValueError string
  | ZeroDivisionError

definition and_then :: "error + 'a \<Rightarrow> ('a \<Rightarrow> error + 'b) \<Rightarrow> error + 'b" where
  "and_then r f = (case r of Inl e \<Rightarrow> Inl e | Inr v \<Rightarrow> f v)"

text \<open>
  A Python float of the configuration: its value, and the text \<^verbatim>\<open>str()\<close> prints for it.
  The printing of a float is floating-point formatting, so the object carries it.
\<close>

record pyfloat =
  fval :: real
  fstr :: string

text \<open>
  A tensor: its size and its elements in row-major order, over the reals (rounding,
  infinities and nan are outside the model).  \<open>wf_tensor\<close> says that the number of
  elements is the product of the sizes.
\<close>

record tensor =
  shape :: "nat list"
  data :: "real list"

definition numel :: "tensor \<Rightarrow> nat" where
  "numel t = prod_list (shape t)"


text \<open>\<^verbatim>\<open>t.size(0)\<close>: the first size; a tensor with no dimension has none.\<close>

definition size0 :: "tensor \<Rightarrow> error + nat" where
  "size0 t = (case shape t of [] \<Rightarrow> Inl IndexError | n # _ \<Rightarrow> Inr n)"

text \<open>
  \<^verbatim>\<open>t.view(batch_size, -1)\<close>: the elements regrouped into \<open>batch_size\<close> rows.  The free
  dimension cannot be inferred for zero rows, and the number of elements must be a
  multiple of the number of rows.
\<close>

definition row :: "nat \<Rightarrow> real list \<Rightarrow> nat \<Rightarrow> real list" where
  "row w xs i = take w (drop (i * w) xs)"

definition view_rows :: "nat \<Rightarrow> tensor \<Rightarrow> error + real list list" where
  "view_rows batch_size t =
     (if batch_size = 0 then Inl (RuntimeError ''view: cannot infer the -1 dimension'')
      else if numel t mod batch_size \<noteq> 0 then Inl (RuntimeError ''view: size mismatch'')
      else Inr (map (row (numel t div batch_size) (data t)) [0..<batch_size]))"

text \<open>
  The values the loss computation handles: a Python float, or a one-dimensional tensor
  (one entry per batch row; a reduced value is a tensor with one entry).
\<close>

datatype pyval = PyFloat real | Tensor "real list"

text \<open>
  An elementwise operation of torch on two one-dimensional tensors: equal sizes pair up,
  a tensor of size one is broadcast, any other pair of sizes is refused.
\<close>

definition broadcast2 :: "(real \<Rightarrow> real \<Rightarrow> real) \<Rightarrow> real list \<Rightarrow> real list \<Rightarrow> error + real list" where
  "broadcast2 f a b =
     (if length a = length b then Inr (map2 f a b)
      else if length a = 1 then Inr (map (f (hd a)) b)
      else if length b = 1 then Inr (map (\<lambda>u. f u (hd b)) a)
      else Inl (RuntimeError ''the sizes of the tensors must match''))"

definition py_binop :: "(real \<Rightarrow> real \<Rightarrow> real) \<Rightarrow> pyval \<Rightarrow> pyval \<Rightarrow> error + pyval" where
  "py_binop f u v =
     (case (u, v) of
        (PyFloat a, PyFloat b) \<Rightarrow> Inr (PyFloat (f a b))
      | (PyFloat a, Tensor b) \<Rightarrow> Inr (Tensor (map (f a) b))
      | (Tensor a, PyFloat b) \<Rightarrow> Inr (Tensor (map (\<lambda>x. f x b) a))
      | (Tensor a, Tensor b) \<Rightarrow> and_then (broadcast2 f a b) (\<lambda>c. Inr (Tensor c)))"

text \<open>
  \<^verbatim>\<open>torch.mean\<close> of a one-dimensional tensor.  Of an empty tensor torch returns nan,
  which the reals do not have: the model reports it as an error value.
\<close>

definition torch_mean :: "real list \<Rightarrow> error + pyval" where
  "torch_mean xs =
     (if xs = [] then Inl (RuntimeError ''mean of an empty tensor is nan'')
      else Inr (Tensor [sum_list xs / real (length xs)]))"

section \<open>The configuration and the VAE object\<close>

record config =
  reparam_type :: string
  layer_type :: string
  nll_type :: string
  filter_depth :: nat
  batch_size :: nat
  mut_reg :: pyfloat
  discrete_size :: nat
  continuous_size :: nat
  cuda :: bool
  ngpu :: nat
  task :: string
  lr :: pyfloat


section \<open>Layers of torch, by the sizes they map\<close>

text \<open>
  The encoder, the decoder and the lazy projection are \<^verbatim>\<open>nn.Sequential\<close> stacks of
  torch layers.  What the claims need of a layer is which input sizes it accepts and
  which size it returns, so a layer is modelled by its constructor arguments, and
  running it by a function on sizes.  \<open>Conv2d i o k s\<close> and \<open>ConvTranspose2d i o k s\<close>
  have \<open>i\<close> input channels, \<open>o\<close> output channels, a square kernel \<open>k\<close>, stride \<open>s\<close> and
  no padding; \<open>Activation\<close> is \<^verbatim>\<open>self.activation_fn(...)\<close>.  A module runs in training
  mode (the flag \<^verbatim>\<open>training\<close> of \<^verbatim>\<open>nn.Module\<close>, true until \<^verbatim>\<open>eval()\<close> is called) or in
  evaluation mode: in training mode batch normalisation refuses an input with a
  single value per channel.
\<close>

datatype layer =
    View "int list"
  | Identity
  | Upsample "nat list"
  | Conv2d nat nat nat nat
  | ConvTranspose2d nat nat nat nat
  | BatchNorm2d nat
  | BatchNorm1d nat
  | Activation
  | Linear nat nat

datatype module = Sequential "layer list" | DataParallel module

text \<open>
  \<^verbatim>\<open>tensor.view(*spec)\<close> on a tensor of \<open>n\<close> elements: at most one entry of \<open>spec\<close> is -1
  and is inferred from the others, which must divide \<open>n\<close>; without a -1 the product of
  the entries must be \<open>n\<close>.
\<close>

definition view_size :: "int list \<Rightarrow> nat \<Rightarrow> error + nat list" where
  "view_size spec n =
     (let known = nat (prod_list (filter (\<lambda>d. d \<noteq> - 1) spec))
      in if list_ex (\<lambda>d. d < - 1) spec then Inl (RuntimeError ''view: invalid size'')
         else if 1 < length (filter (\<lambda>d. d = - 1) spec)
           then Inl (RuntimeError ''view: only one dimension can be inferred'')
         else if list_ex (\<lambda>d. d = - 1) spec then
           (if known = 0 \<or> n mod known \<noteq> 0 then Inl (RuntimeError ''view: size mismatch'')
            else Inr (map (\<lambda>d. if d = - 1 then n div known else nat d) spec))
         else if known = n then Inr (map nat spec)
         else Inl (RuntimeError ''view: size mismatch''))"

definition layer_size :: "bool \<Rightarrow> layer \<Rightarrow> nat list \<Rightarrow> error + nat list" where
  "layer_size training l s =
     (case l of
        View spec \<Rightarrow> view_size spec (prod_list s)
      | Identity \<Rightarrow> Inr s
      | Upsample sz \<Rightarrow>
          (case s of
             [n, c, h, w] \<Rightarrow>
               if length sz \<noteq> 2
                 then Inl (RuntimeError ''upsample: bilinear needs a size of two entries'')
               else if h = 0 \<or> w = 0 \<or> list_ex (\<lambda>d. d = 0) sz
                 then Inl (RuntimeError ''upsample: input and output sizes should be greater than 0'')
               else Inr ([n, c] @ sz)
           | _ \<Rightarrow> Inl (RuntimeError ''upsample: bilinear needs a 4D input''))
      | Conv2d i out k st \<Rightarrow>
          (case s of
             [n, c, h, w] \<Rightarrow>
               if c = i \<and> k \<le> h \<and> k \<le> w \<and> 0 < st
               then Inr [n, out, (h - k) div st + 1, (w - k) div st + 1]
               else Inl (RuntimeError ''conv2d: size mismatch'')
           | _ \<Rightarrow> Inl (RuntimeError ''conv2d: expected a 4D input''))
      | ConvTranspose2d i out k st \<Rightarrow>
          (case s of
             [n, c, h, w] \<Rightarrow>
               if c = i \<and> 0 < h \<and> 0 < w
               then Inr [n, out, (h - 1) * st + k, (w - 1) * st + k]
               else Inl (RuntimeError ''conv_transpose2d: size mismatch'')
           | _ \<Rightarrow> Inl (RuntimeError ''conv_transpose2d: expected a 4D input''))
      | BatchNorm2d f \<Rightarrow>
          (case s of
             [n, c, h, w] \<Rightarrow>
               if training \<and> n * h * w = 1
                 then Inl (ValueError ''Expected more than 1 value per channel when training'')
               else if c = f then Inr s
               else Inl (RuntimeError ''batch_norm: size mismatch'')
           | _ \<Rightarrow> Inl (RuntimeError ''batch_norm2d: expected a 4D input''))
      | BatchNorm1d f \<Rightarrow>
          (case s of
             [n, c] \<Rightarrow>
               if training \<and> n = 1
                 then Inl (ValueError ''Expected more than 1 value per channel when training'')
               else if c = f then Inr s
               else Inl (RuntimeError ''batch_norm: size mismatch'')
           | [n, c, len] \<Rightarrow>
               if training \<and> n * len = 1
                 then Inl (ValueError ''Expected more than 1 value per channel when training'')
               else if c = f then Inr s
               else Inl (RuntimeError ''batch_norm: size mismatch'')
           | _ \<Rightarrow> Inl (RuntimeError ''batch_norm1d: expected a 2D or 3D input''))
      | Activation \<Rightarrow> Inr s
      | Linear i out \<Rightarrow>
          if s \<noteq> [] \<and> last s = i then Inr (butlast s @ [out])
          else Inl (RuntimeError ''linear: size mismatch''))"

fun run_layers :: "bool \<Rightarrow> layer list \<Rightarrow> nat list \<Rightarrow> error + nat list" where
  "run_layers training [] s = Inr s"
| "run_layers training (l # ls) s = and_then (layer_size training l s) (run_layers training ls)"

fun module_size :: "bool \<Rightarrow> module \<Rightarrow> nat list \<Rightarrow> error + nat list" where
  "module_size training (Sequential ls) s = run_layers training ls s"
| "module_size training (DataParallel m) s = module_size training m s"

section \<open>The reparameterizers (models/isotropic_gaussian.py, gumbel.py, mixture.py)\<close>

text \<open>
  The three reparameterizer classes are imported by models/vae.py; their files are not
  part of the sources.  An object of one of them is the constructor's name and
  arguments.
\<close>

datatype reparameterizer =
    IsotropicGaussian config
  | GumbelSoftmax config
  | Mixture nat nat config

text \<open>
  Modelled from the spec: the attributes \<^verbatim>\<open>input_size\<close> and \<^verbatim>\<open>output_size\<close> of the
  reparameterizer classes, whose files are missing.  Isotropic Gaussian:
  \<open>input_size = 2 * continuous_size\<close>, \<open>output_size = continuous_size\<close>; Gumbel-softmax:
  \<open>input_size = output_size = discrete_size\<close>; mixture: the sums of the two.
\<close>

fun reparam_input_size :: "reparameterizer \<Rightarrow> nat" where
  "reparam_input_size (IsotropicGaussian c) = 2 * continuous_size c"
| "reparam_input_size (GumbelSoftmax c) = discrete_size c"
| "reparam_input_size (Mixture num_discrete num_continuous c) = 2 * num_continuous + num_discrete"

fun reparam_output_size :: "reparameterizer \<Rightarrow> nat" where
  "reparam_output_size (IsotropicGaussian c) = continuous_size c"
| "reparam_output_size (GumbelSoftmax c) = discrete_size c"
| "reparam_output_size (Mixture num_discrete num_continuous c) = num_continuous + num_discrete"

text \<open>
  Modelled from the spec: calling the reparameterizer, by sizes.  Logits of size
  \<open>[batch, input_size]\<close> give a latent sample of size \<open>[batch, output_size]\<close>; logits of
  another width are a size mismatch.
\<close>

definition reparameterize_size :: "reparameterizer \<Rightarrow> nat list \<Rightarrow> error + nat list" where
  "reparameterize_size r logits =
     (case logits of
        [b, w] \<Rightarrow>
          if w = reparam_input_size r then Inr [b, reparam_output_size r]
          else Inl (RuntimeError ''reparameterizer: size mismatch'')
      | _ \<Rightarrow> Inl (RuntimeError ''reparameterizer: size mismatch''))"

text \<open>
  The methods \<^verbatim>\<open>kl\<close> and \<^verbatim>\<open>mutual_info\<close> of the reparameterizer are parameters of the
  model: each maps the parameter record of a forward pass to a one-dimensional tensor,
  or raises.
\<close>

record 'p reparam_ops =
  kl :: "'p \<Rightarrow> error + real list"
  mutual_info :: "'p \<Rightarrow> error + real list"

section \<open>The VAE object (models/vae.py)\<close>

text \<open>
  The attributes \<^verbatim>\<open>__init__\<close> sets, and \<open>lazy_modules\<close> for the attributes that
  \<^verbatim>\<open>_lazy_init_dense\<close> adds by \<^verbatim>\<open>setattr\<close>.  The activation function is the default
  \<^verbatim>\<open>nn.ReLU\<close>.  Moving a module to a device (\<^verbatim>\<open>.cuda()\<close>) does not change what it
  computes and is not represented.  \<open>training\<close> is the mode flag that
  \<^verbatim>\<open>super(VAE, self).__init__()\<close> sets to true and that the submodules share.
\<close>

record vae =
  training :: bool
  input_shape :: "nat list"
  is_color :: bool
  chans :: nat
  config :: config
  reparameterizer :: reparameterizer
  encoder :: module
  decoder :: module
  lazy_modules :: "string \<rightharpoonup> module"

text \<open>
  The names \<^verbatim>\<open>class VAE\<close> defines and \<^verbatim>\<open>__init__\<close> sets.  (\<^verbatim>\<open>nn.Module\<close> adds its own;
  none of them is one of the names looked up below.)
\<close>

definition class_attributes :: "string list" where
  "class_attributes =
     [''__init__'', ''get_name'', ''build_encoder'', ''build_decoder'', ''_lazy_init_dense'',
      ''reparameterize'', ''nll_activation'', ''encode'', ''decode'', ''forward'', ''nll'',
      ''nll_bernoulli'', ''nll_gaussian'', ''kld'', ''loss_function'',
      ''input_shape'', ''activation_fn'', ''is_color'', ''chans'', ''config'',
      ''reparameterizer'', ''encoder'', ''decoder'']"

definition hasattr :: "vae \<Rightarrow> string \<Rightarrow> bool" where
  "hasattr self name = (name \<in> set class_attributes \<or> lazy_modules self name \<noteq> None)"

text \<open>\<^verbatim>\<open>build_encoder\<close>: the convolutional or the dense stack, or an exception.\<close>

definition build_encoder :: "vae \<Rightarrow> error + module" where
  "build_encoder self =
     (let fd = filter_depth (config self);
          isz = reparam_input_size (reparameterizer self)
      in
      and_then
        (if layer_type (config self) = ''conv'' then
           (let bilinear_size = [32, 32];
                upsampler = Upsample bilinear_size
            in Inr (Sequential
              [if tl (input_shape self) \<noteq> bilinear_size then upsampler else Identity,
               Conv2d (chans self) fd 5 1, BatchNorm2d fd, Activation,
               Conv2d fd (fd * 2) 4 2, BatchNorm2d (fd * 2), Activation,
               Conv2d (fd * 2) (fd * 4) 4 1, BatchNorm2d (fd * 4), Activation,
               Conv2d (fd * 4) (fd * 8) 4 2, BatchNorm2d (fd * 8), Activation,
               Conv2d (fd * 8) (fd * 16) 4 1, BatchNorm2d (fd * 16), Activation,
               Conv2d (fd * 16) (fd * 16) 1 1, BatchNorm2d (fd * 16), Activation,
               Conv2d (fd * 16) isz 1 1, BatchNorm2d isz, Activation]))
         else if layer_type (config self) = ''dense'' then
           Inr (Sequential
             [View [- 1, int (prod_list (input_shape self))],
              Linear (prod_list (input_shape self)) isz, BatchNorm1d isz, Activation,
              Linear isz isz, BatchNorm1d isz, Activation,
              Linear isz isz])
         else Inl (Exception ''unknown layer type requested''))
        (\<lambda>encoder. Inr (if 1 < ngpu (config self) then DataParallel encoder else encoder)))"

text \<open>\<^verbatim>\<open>build_decoder\<close>.\<close>

definition build_decoder :: "vae \<Rightarrow> error + module" where
  "build_decoder self =
     (let fd = filter_depth (config self);
          osz = reparam_output_size (reparameterizer self);
          bilinear_size = [32, 32]
      in
      and_then
        (if layer_type (config self) = ''conv'' then
           (let upsampler = Upsample (tl (input_shape self))
            in Inr (Sequential
              [View [- 1, int osz, 1, 1],
               ConvTranspose2d osz (fd * 8) 4 1, BatchNorm2d (fd * 8), Activation,
               ConvTranspose2d (fd * 8) (fd * 4) 4 2, BatchNorm2d (fd * 4), Activation,
               ConvTranspose2d (fd * 4) (fd * 2) 4 1, BatchNorm2d (fd * 2), Activation,
               ConvTranspose2d (fd * 2) fd 4 2, BatchNorm2d fd, Activation,
               ConvTranspose2d fd fd 5 1, BatchNorm2d fd, Activation,
               Conv2d fd (chans self) 1 1,
               if tl (input_shape self) \<noteq> bilinear_size then upsampler else Identity]))
         else if layer_type (config self) = ''dense'' then
           Inr (Sequential
             [View [- 1, int osz],
              Linear osz osz, BatchNorm1d osz, Activation,
              Linear osz osz, BatchNorm1d osz, Activation,
              Linear osz (prod_list (input_shape self)),
              View (- 1 # map int (input_shape self))])
         else Inl (Exception ''unknown layer type requested''))
        (\<lambda>decoder. Inr (if 1 < ngpu (config self) then DataParallel decoder else decoder)))"

text \<open>
  \<^verbatim>\<open>VAE.__init__(input_shape, kwargs=config)\<close>.  \<^verbatim>\<open>input_shape[0]\<close> is read first, then
  the reparameterizer is chosen, then the encoder and the decoder are built.
\<close>

definition VAE_init :: "nat list \<Rightarrow> config \<Rightarrow> error + vae" where
  "VAE_init shp cfg =
     (case shp of
        [] \<Rightarrow> Inl IndexError
      | c0 # _ \<Rightarrow>
          and_then
            (if reparam_type cfg = ''isotropic_gaussian'' then Inr (IsotropicGaussian cfg)
             else if reparam_type cfg = ''discrete'' then Inr (GumbelSoftmax cfg)
             else if reparam_type cfg = ''mixture''
               then Inr (Mixture (discrete_size cfg) (continuous_size cfg) cfg)
             else Inl (Exception ''unknown reparameterization type''))
            (\<lambda>rep.
              let self = \<lparr>training = True, input_shape = shp, is_color = (1 < c0),
                          chans = (if 1 < c0 then 3 else 1), config = cfg,
                          reparameterizer = rep, encoder = Sequential [],
                          decoder = Sequential [], lazy_modules = Map.empty\<rparr>
              in and_then (build_encoder self) (\<lambda>enc.
                 and_then (build_decoder (self\<lparr>encoder := enc\<rparr>)) (\<lambda>dec.
                   Inr (self\<lparr>encoder := enc, decoder := dec\<rparr>)))))"

text \<open>
  \<^verbatim>\<open>_lazy_init_dense(input_size, output_size, name)\<close>: the projection is built and stored
  under \<open>name\<close> only when the object has no attribute of that name.
\<close>

definition lazy_init_dense :: "vae \<Rightarrow> nat \<Rightarrow> nat \<Rightarrow> string \<Rightarrow> vae" where
  "lazy_init_dense self input_size output_size name =
     (if \<not> hasattr self name then
        (let m = Sequential [View [- 1, int input_size], Linear input_size output_size]
         in self\<lparr>lazy_modules := (lazy_modules self)
              (name \<mapsto> (if 1 < ngpu (config self) then DataParallel m else m))\<rparr>)
      else self)"

text \<open>
  \<^verbatim>\<open>encode(x)\<close>, by sizes: \<open>x\<close> is the size of the input batch.  The result is the object
  after the call (an exception does not undo a \<^verbatim>\<open>setattr\<close>) and the size of the logits,
  or the exception.
\<close>

definition encode :: "vae \<Rightarrow> nat list \<Rightarrow> vae \<times> (error + nat list)" where
  "encode self x =
     (case module_size (training self) (encoder self) x of
        Inl e \<Rightarrow> (self, Inl e)
      | Inr conv \<Rightarrow>
          (let conv_output_shp = prod_list (tl conv);
               self' = lazy_init_dense self conv_output_shp
                         (reparam_input_size (reparameterizer self)) ''enc_proj''
           in (self',
               case lazy_modules self' ''enc_proj'' of
                 None \<Rightarrow> Inl (AttributeError ''enc_proj'')
               | Some enc_proj \<Rightarrow> module_size (training self') enc_proj conv)))"

definition decode :: "vae \<Rightarrow> nat list \<Rightarrow> error + nat list" where
  "decode self z = module_size (training self) (decoder self) z"

text \<open>\<^verbatim>\<open>forward(x)\<close>, by sizes: the size of the reconstruction logits.\<close>

definition forward :: "vae \<Rightarrow> nat list \<Rightarrow> vae \<times> (error + nat list)" where
  "forward self x =
     (case encode self x of
        (self', Inl e) \<Rightarrow> (self', Inl e)
      | (self', Inr z_logits) \<Rightarrow>
          (self', and_then (reparameterize_size (reparameterizer self') z_logits) (decode self')))"

text \<open>
  How the driver uses a model (main.py): it constructs the model and then runs forward
  passes on it, the first one to build the lazy modules.  \<open>two_forward_calls\<close> is the
  construction followed by two forward passes; it returns what each pass returned.
\<close>

definition two_forward_calls ::
    "nat list \<Rightarrow> config \<Rightarrow> nat list \<Rightarrow> nat list \<Rightarrow> error + (error + nat list) \<times> (error + nat list)" where
  "two_forward_calls shp cfg x1 x2 =
     and_then (VAE_init shp cfg) (\<lambda>self.
       case forward self x1 of (self1, out1) \<Rightarrow> Inr (out1, snd (forward self1 x2)))"

section \<open>The name of a model (models/vae.py)\<close>

text \<open>
  \<^verbatim>\<open>str\<close> of a non-negative integer (its decimal digits) and of a list of them
  (\<^verbatim>\<open>[1, 28, 28]\<close>).
\<close>

definition digit_char :: "nat \<Rightarrow> char" where
  "digit_char d = ''0123456789'' ! d"

fun str_nat :: "nat \<Rightarrow> string" where
  "str_nat n = (if n < 10 then [digit_char n] else str_nat (n div 10) @ [digit_char (n mod 10)])"

fun join :: "string \<Rightarrow> string list \<Rightarrow> string" where
  "join sep [] = []"
| "join sep [x] = x"
| "join sep (x # y # ys) = x @ sep @ join sep (y # ys)"

definition str_list :: "nat list \<Rightarrow> string" where
  "str_list xs = ''['' @ join '', '' (map str_nat xs) @ '']''"

text \<open>
  The string methods \<^verbatim>\<open>get_name\<close> chains: \<^verbatim>\<open>strip()\<close> removes white space at both
  ends, \<^verbatim>\<open>lower()\<close> maps the capital letters, \<^verbatim>\<open>replace(old, new)\<close> is called with one
  character for \<open>old\<close>.
\<close>

definition is_space :: "char \<Rightarrow> bool" where
  "is_space c = (of_char c \<in> set [9, 10, 11, 12, 13, 28, 29, 30, 31, 32 :: nat])"

definition py_strip :: "string \<Rightarrow> string" where
  "py_strip s = rev (dropWhile is_space (rev (dropWhile is_space s)))"

definition lower_char :: "char \<Rightarrow> char" where
  "lower_char c = (if 65 \<le> (of_char c :: nat) \<and> (of_char c :: nat) \<le> 90
                   then char_of ((of_char c :: nat) + 32) else c)"

definition py_lower :: "string \<Rightarrow> string" where
  "py_lower s = map lower_char s"

definition replace :: "char \<Rightarrow> string \<Rightarrow> string \<Rightarrow> string" where
  "replace old new s = concat (map (\<lambda>c. if c = old then new else [c]) s)"

definition get_name :: "vae \<Rightarrow> string" where
  "get_name self =
     (let cfg = config self;
          param_str =
            (if reparam_type cfg = ''mixture''
             then ''_disc'' @ str_nat (discrete_size cfg) @
                  ''_cont'' @ str_nat (continuous_size cfg)
             else ''latent'' @ str_nat (continuous_size cfg));
          full_hash_str =
            ''_input'' @ str_list (input_shape self) @
            param_str @
            ''_batch'' @ str_nat (batch_size cfg) @
            ''_mut'' @ fstr (mut_reg cfg) @
            ''_filter_depth'' @ str_nat (filter_depth cfg) @
            ''_nll'' @ nll_type cfg @
            ''_reparam'' @ reparam_type cfg @
            ''_lr'' @ fstr (lr cfg);
          full_hash_str =
            replace (CHR 0x27) []
              (replace CHR '')'' []
                (replace CHR ''('' []
                  (replace CHR '':'' []
                    (replace CHR '','' ''_''
                      (replace CHR ''}'' []
                        (replace CHR ''{'' []
                          (replace CHR '' '' []
                            (replace CHR '']'' []
                              (replace CHR ''['' []
                                (py_lower (py_strip full_hash_str)))))))))))
      in ''vae_'' @ task cfg @ full_hash_str)"

text \<open>
  Notions used to state what \<open>get_name\<close> distinguishes: \<open>normalise\<close> is the chain of
  \<^verbatim>\<open>lower\<close> and \<^verbatim>\<open>replace\<close> calls of \<open>get_name\<close> as one function, \<open>rstrip\<close> the right half
  of \<^verbatim>\<open>strip\<close>, and \<open>float_text\<close> holds of a text made of the characters Python prints
  a float with (digits, sign, point, exponent, \<^verbatim>\<open>inf\<close> and \<^verbatim>\<open>nan\<close>).
\<close>

definition normalise :: "string \<Rightarrow> string" where
  "normalise s =
     replace (CHR 0x27) []
       (replace CHR '')'' []
         (replace CHR ''('' []
           (replace CHR '':'' []
             (replace CHR '','' ''_''
               (replace CHR ''}'' []
                 (replace CHR ''{'' []
                   (replace CHR '' '' []
                     (replace CHR '']'' []
                       (replace CHR ''['' []
                         (py_lower s))))))))))"

definition rstrip :: "string \<Rightarrow> string" where
  "rstrip s = rev (dropWhile is_space (rev s))"

definition float_text :: "string \<Rightarrow> bool" where
  "float_text s = (s \<noteq> [] \<and> list_all (\<lambda>c. c \<in> set ''0123456789.e+-infa'') s)"

section \<open>Negative log-likelihoods (models/vae.py)\<close>

text \<open>
  \<^verbatim>\<open>nll_bernoulli\<close>, one element: \<open>max_val = (-logits).clamp(min=0)\<close> and
  \<^verbatim>\<open>logits - logits * x + max_val + ((-max_val).exp() + (-logits - max_val).exp()).log()\<close>.
\<close>

definition bernoulli_elem :: "real \<Rightarrow> real \<Rightarrow> real" where
  "bernoulli_elem l x =
     (let max_val = max (- l) 0
      in l - l * x + max_val + ln (exp (- max_val) + exp (- l - max_val)))"

definition nll_bernoulli :: "tensor \<Rightarrow> tensor \<Rightarrow> error + real list" where
  "nll_bernoulli recon_x_logits x =
     (if shape x \<noteq> shape recon_x_logits then Inl AssertionError
      else
        and_then (size0 recon_x_logits) (\<lambda>batch_size.
        and_then (view_rows batch_size recon_x_logits) (\<lambda>lrows.
        and_then (view_rows batch_size x) (\<lambda>xrows.
          Inr (map2 (\<lambda>lr xr. sum_list (map2 bernoulli_elem lr xr)) lrows xrows)))))"

text \<open>
  The reference the stable form is compared with: the Bernoulli cross-entropy
  \<open>-(x log \<sigma>(l) + (1 - x) log (1 - \<sigma>(l)))\<close>.
\<close>

definition sigmoid :: "real \<Rightarrow> real" where
  "sigmoid l = 1 / (1 + exp (- l))"


text \<open>
  \<^verbatim>\<open>nll_gaussian\<close>.  The body defines three local functions, taken from the normal
  distribution of tensorflow, and then returns
  \<^verbatim>\<open>self._log_unnormalized_prob(x, mu=recon_x_logits, logvar=logvar) - self._log_normalization(logvar=logvar)\<close>.
  The local functions, one element each:
\<close>

definition gaussian_z :: "real \<Rightarrow> real \<Rightarrow> real \<Rightarrow> real \<Rightarrow> real" where
  "gaussian_z x loc scale eps = (x - loc) / (scale + eps)"

definition gaussian_log_unnormalized_prob :: "real \<Rightarrow> real \<Rightarrow> real \<Rightarrow> real" where
  "gaussian_log_unnormalized_prob x loc scale = - 0.5 * (gaussian_z x loc scale (1 / 10 ^ 9)) ^ 2"

definition gaussian_log_normalization :: "real \<Rightarrow> real \<Rightarrow> real" where
  "gaussian_log_normalization scale eps = ln (scale + eps) + 0.5 * ln (2 * pi)"

text \<open>
  The return statement looks the helpers up as attributes of \<open>self\<close>.  They are local
  names of the method, not attributes: the first lookup,
  \<^verbatim>\<open>self._log_unnormalized_prob\<close>, raises \<open>AttributeError\<close> unless something stored an
  attribute of that name, and what is stored by \<^verbatim>\<open>_lazy_init_dense\<close> is a module, which
  takes no keyword argument \<^verbatim>\<open>mu\<close>.
\<close>

definition nll_gaussian :: "vae \<Rightarrow> tensor \<Rightarrow> tensor \<Rightarrow> real \<Rightarrow> error + real list" where
  "nll_gaussian self recon_x_logits x logvar =
     (if \<not> hasattr self ''_log_unnormalized_prob''
      then Inl (AttributeError ''_log_unnormalized_prob'')
      else Inl (TypeError ''got an unexpected keyword argument mu''))"

text \<open>\<^verbatim>\<open>nll\<close>: the dictionary of the two methods, indexed by the configured type.\<close>

definition nll :: "vae \<Rightarrow> tensor \<Rightarrow> tensor \<Rightarrow> error + real list" where
  "nll self recon_x x =
     (let nll_map = map_of
            [(''gaussian'', \<lambda>r t. nll_gaussian self r t 1),
             (''bernoulli'', nll_bernoulli)]
      in case nll_map (nll_type (config self)) of
           None \<Rightarrow> Inl (KeyError (nll_type (config self)))
         | Some f \<Rightarrow> f recon_x x)"

text \<open>\<^verbatim>\<open>nll_activation\<close>: the one place that names an unknown \<open>nll_type\<close>.\<close>

definition nll_activation :: "vae \<Rightarrow> tensor \<Rightarrow> error + tensor" where
  "nll_activation self logits =
     (if nll_type (config self) = ''gaussian'' then Inr logits
      else if nll_type (config self) = ''bernoulli''
        then Inr (logits\<lparr>data := map sigmoid (data logits)\<rparr>)
      else Inl (Exception ''unknown nll provided''))"

section \<open>The loss (models/vae.py)\<close>

definition kld :: "'p reparam_ops \<Rightarrow> 'p \<Rightarrow> error + real list" where
  "kld ops dist_a = kl ops dist_a"

definition py_mean :: "pyval \<Rightarrow> error + pyval" where
  "py_mean v =
     (case v of
        Tensor t \<Rightarrow> torch_mean t
      | PyFloat f \<Rightarrow> Inl (TypeError ''mean of a float''))"

text \<open>
  \<^verbatim>\<open>loss_function(recon_x, x, params)\<close>.  \<open>mut_info\<close> starts as the float \<open>0.0\<close>; for a
  mixture the tensor of the regularizer is added to it.  The result is the dictionary.
\<close>

definition loss_function ::
    "'p reparam_ops \<Rightarrow> vae \<Rightarrow> tensor \<Rightarrow> tensor \<Rightarrow> 'p \<Rightarrow> error + (string \<rightharpoonup> pyval)" where
  "loss_function ops self recon_x x params =
     and_then (nll self recon_x x) (\<lambda>nll_t.
     and_then (kld ops params) (\<lambda>kld_t.
     and_then (py_binop (+) (Tensor nll_t) (Tensor kld_t)) (\<lambda>elbo.
     and_then
       (if reparam_type (config self) = ''mixture''
        then and_then (mutual_info ops params) (\<lambda>mi. py_binop (+) (PyFloat 0) (Tensor mi))
        else Inr (PyFloat 0)) (\<lambda>mut_info.
     and_then (py_binop (*) (PyFloat (fval (mut_reg (config self)))) mut_info) (\<lambda>reg.
     and_then (py_binop (-) elbo reg) (\<lambda>loss.
     and_then (py_mean loss) (\<lambda>loss_mean.
     and_then (py_mean elbo) (\<lambda>elbo_mean.
     and_then (torch_mean nll_t) (\<lambda>nll_mean.
     and_then (torch_mean kld_t) (\<lambda>kld_mean.
     and_then
       (case mut_info of
          PyFloat f \<Rightarrow> Inr (PyFloat f)
        | Tensor t \<Rightarrow> torch_mean t) (\<lambda>mut_info_mean.
     Inr [''loss'' \<mapsto> loss,
          ''loss_mean'' \<mapsto> loss_mean,
          ''elbo_mean'' \<mapsto> elbo_mean,
          ''nll_mean'' \<mapsto> nll_mean,
          ''kld_mean'' \<mapsto> kld_mean,
          ''mut_info_mean'' \<mapsto> mut_info_mean])))))))))))"

section \<open>Helpers (helpers/utils.py)\<close>


text \<open>
  \<^verbatim>\<open>scale(val, src, dst)\<close> over exact numbers: a division by zero raises.
\<close>

definition scale :: "'a::field \<Rightarrow> 'a \<times> 'a \<Rightarrow> 'a \<times> 'a \<Rightarrow> error + 'a" where
  "scale val src dst =
     (if snd src - fst src = 0 then Inl ZeroDivisionError
      else Inr (((val - fst src) / (snd src - fst src)) * (snd dst - fst dst) + fst dst))"

text \<open>
  \<^verbatim>\<open>mask.scatter_(1, index, src)\<close> on matrices given by their rows: for every entry
  \<open>index[i][j]\<close>, \<open>mask[i][index[i][j]] = src[i][j]\<close>.  The index may not have more rows
  than the mask, and its entries must be columns of the mask.
\<close>

fun scatter_row :: "int list \<Rightarrow> int list \<Rightarrow> int list \<Rightarrow> error + int list" where
  "scatter_row r [] vs = Inr r"
| "scatter_row r (c # cs) [] = Inl (RuntimeError ''scatter: the source is smaller than the index'')"
| "scatter_row r (c # cs) (v # vs) =
     (if 0 \<le> c \<and> c < int (length r) then scatter_row (r[nat c := v]) cs vs
      else Inl (RuntimeError ''scatter: index out of range''))"

fun scatter1 :: "int list list \<Rightarrow> int list list \<Rightarrow> int list list \<Rightarrow> error + int list list" where
  "scatter1 m [] src = Inr m"
| "scatter1 [] (ir # irs) src = Inl (RuntimeError ''scatter: the index has more rows than the tensor'')"
| "scatter1 (r # rs) (ir # irs) [] = Inl (RuntimeError ''scatter: the source is smaller than the index'')"
| "scatter1 (r # rs) (ir # irs) (sr # srs) =
     and_then (scatter_row r ir sr) (\<lambda>r'.
     and_then (scatter1 rs irs srs) (\<lambda>rs'. Inr (r' # rs')))"

text \<open>
  \<^verbatim>\<open>one_hot(size, index)\<close>: a zero matrix of the given size, and ones scattered along
  dimension 1.  For a \<^verbatim>\<open>Variable\<close> index the source is a tensor of ones of the size of
  the index, otherwise the number 1, written to every indexed place; the device flag
  \<^verbatim>\<open>use_cuda\<close> only selects the tensor type.
\<close>

definition one_hot :: "nat \<times> nat \<Rightarrow> int list list \<Rightarrow> bool \<Rightarrow> error + int list list" where
  "one_hot sz index is_variable =
     (let mask = replicate (fst sz) (replicate (snd sz) 0);
          ones = (if is_variable then map (map (\<lambda>_. 1)) index
                  else map (\<lambda>ir. replicate (length ir) 1) index)
      in scatter1 mask index ones)"

section \<open>Example inputs\<close>

text \<open>
  A configuration of the mixture model (10 discrete and 8 continuous latent dimensions,
  regularizer weight 0.3), and reparameterizer methods that return fixed tensors for a
  batch of two.
\<close>

definition example_config :: config where
  "example_config =
     \<lparr>reparam_type = ''mixture'', layer_type = ''conv'', nll_type = ''bernoulli'',
      filter_depth = 32, batch_size = 64, mut_reg = \<lparr>fval = 3 / 10, fstr = ''0.3''\<rparr>,
      discrete_size = 10, continuous_size = 8, cuda = False, ngpu = 1, task = ''mnist'',
      lr = \<lparr>fval = 1 / 1000, fstr = ''0.001''\<rparr>\<rparr>"

definition example_ops :: "real list \<Rightarrow> unit reparam_ops" where
  "example_ops mi = \<lparr>kl = (\<lambda>_. Inr [1, 2]), mutual_info = (\<lambda>_. Inr mi)\<rparr>"

section \<open>Bernoulli negative log-likelihood\<close>

lemma bernoulli_elem_softplus: "bernoulli_elem l x = l - l * x + ln (1 + exp (- l))"
proof -
  define m where "m = max (- l) (0::real)"
  have pos: "0 < exp (- m) + exp (- l - m)"
    by (simp add: add_pos_pos)
  have "exp m * (exp (- m) + exp (- l - m)) = 1 + exp (- l)"
    by (simp add: distrib_left flip: exp_add)
  then have "ln (1 + exp (- l)) = ln (exp m * (exp (- m) + exp (- l - m)))"
    by simp
  also have "\<dots> = m + ln (exp (- m) + exp (- l - m))"
    using pos by (simp add: ln_mult)
  finally show ?thesis
    by (simp add: bernoulli_elem_def Let_def m_def)
qed










text \<open>
  In the stable form no exponential is taken of a positive number: both exponentials
  lie in \<open>(0, 1]\<close>, one of them is 1, and the logarithm is taken of a number in
  \<open>(1, 2]\<close>, whatever the size of the logit.
\<close>

lemma bernoulli_elem_bounded:
  fixes l :: real
  shows "0 \<le> max (- l) 0 \<and> - max (- l) 0 \<le> 0 \<and> - l - max (- l) 0 \<le> 0 \<and>
   1 < exp (- max (- l) 0) + exp (- l - max (- l) 0) \<and>
   exp (- max (- l) 0) + exp (- l - max (- l) 0) \<le> 2 \<and>
   0 < ln (exp (- max (- l) 0) + exp (- l - max (- l) 0)) \<and>
   ln (exp (- max (- l) 0) + exp (- l - max (- l) 0)) \<le> ln 2"
proof -
  define m where "m = max (- l) (0::real)"
  have a: "- m \<le> 0" "- l - m \<le> 0"
    by (simp_all add: m_def max_def)
  have one: "exp (- m) = 1 \<or> exp (- l - m) = 1"
    by (auto simp: m_def max_def)
  have le: "exp (- m) \<le> 1" "exp (- l - m) \<le> 1"
    using a by simp_all
  have pos: "0 < exp (- m)" "0 < exp (- l - m)"
    by simp_all
  have s: "1 < exp (- m) + exp (- l - m)" "exp (- m) + exp (- l - m) \<le> 2"
    using one le pos by linarith+
  have "0 < ln (exp (- m) + exp (- l - m))"
    using s(1) by (rule ln_gt_zero)
  moreover have "ln (exp (- m) + exp (- l - m)) \<le> ln 2"
    using s by (subst ln_le_cancel_iff) simp_all
  ultimately show ?thesis
    using a s unfolding m_def by simp
qed














section \<open>One-hot rows and scaling (helpers/utils.py)\<close>

lemma sum_list_unit_row: "c < k \<Longrightarrow> sum_list ((replicate k (0::int))[c := 1]) = 1"
  by (simp add: upd_conv_take_nth_drop sum_list_replicate)

lemma nth_unit_row: "c < k \<Longrightarrow> j < k \<Longrightarrow> (replicate k (0::int))[c := 1] ! j = (if j = c then 1 else 0)"
  by (simp add: nth_list_update)

lemma scatter1_single:
  assumes "length m = length index"
    and "\<forall>r\<in>set m. length r = k"
    and "\<forall>ir\<in>set index. length ir = 1 \<and> 0 \<le> hd ir \<and> hd ir < int k"
  shows "scatter1 m index (map (\<lambda>ir. replicate (length ir) 1) index)
           = Inr (map2 (\<lambda>r ir. r[nat (hd ir) := 1]) m index)"
  using assms
proof (induction m index rule: list_induct2)
  case Nil
  then show ?case by simp
next
  case (Cons r rs ir irs)
  from Cons.prems obtain c where ir: "ir = [c]" and c: "0 \<le> c" "c < int k"
    by (cases ir) auto
  from Cons.prems have r: "length r = k" by simp
  have "scatter_row r ir (replicate (length ir) 1) = Inr (r[nat c := 1])"
    using c r by (simp add: ir)
  moreover have "scatter1 rs irs (map (\<lambda>ir. replicate (length ir) 1) irs) = Inr (map2 (\<lambda>r ir. r[nat (hd ir) := 1]) rs irs)"
    using Cons.IH Cons.prems by simp
  ultimately show ?case
    by (simp add: and_then_def ir)
qed

lemma ones_like_index: "map (map (\<lambda>_. 1::int)) index = map (\<lambda>ir. replicate (length ir) 1) index"
  by (simp add: map_replicate_const)

lemma map2_replicate_left: "length ys = n \<Longrightarrow> map2 f (replicate n z) ys = map (f z) ys"
  by (induction ys arbitrary: n) auto

lemma one_hot_value:
  assumes "length index = n"
    and "\<forall>ir\<in>set index. length ir = 1 \<and> 0 \<le> hd ir \<and> hd ir < int k"
  shows "one_hot (n, k) index v = Inr (map (\<lambda>ir. (replicate k 0)[nat (hd ir) := 1]) index)"
proof -
  have "scatter1 (replicate n (replicate k 0)) index (map (\<lambda>ir. replicate (length ir) 1) index)
          = Inr (map2 (\<lambda>r ir. r[nat (hd ir) := 1]) (replicate n (replicate k 0)) index)"
    using assms by (intro scatter1_single [where k = k]) simp_all
  then show ?thesis
    using assms(1) by (simp add: one_hot_def ones_like_index map2_replicate_left)
qed

text \<open>
  Claim C9.  For a size \<open>(n, k)\<close> with \<open>n, k > 0\<close> and an \<open>n \<times> 1\<close> index with entries in
  \<open>[0, k)\<close>, \<open>one_hot\<close> returns an \<open>n \<times> k\<close> matrix whose row \<open>i\<close> is 1 at column
  \<open>index[i]\<close> and 0 elsewhere; every row sums to 1.
\<close>

theorem one_hot_rows:
  assumes "0 < n" and "0 < k" and len: "length index = n"
    and idx: "\<forall>ir\<in>set index. length ir = 1 \<and> 0 \<le> hd ir \<and> hd ir < int k"
  shows "\<exists>m. one_hot (n, k) index v = Inr m \<and> length m = n \<and>
           (\<forall>i<n. length (m ! i) = k \<and>
                   (\<forall>j<k. m ! i ! j = (if int j = hd (index ! i) then 1 else 0)) \<and>
                   sum_list (m ! i) = 1)"
proof -
  let ?m = "map (\<lambda>ir. (replicate k (0::int))[nat (hd ir) := 1]) index"
  have res: "one_hot (n, k) index v = Inr ?m"
    using len idx by (rule one_hot_value)
  have rows: "length (?m ! i) = k \<and>
              (\<forall>j<k. ?m ! i ! j = (if int j = hd (index ! i) then 1 else 0)) \<and>
              sum_list (?m ! i) = 1" if "i < n" for i
  proof -
    from that len have "index ! i \<in> set index" by simp
    with idx have c: "0 \<le> hd (index ! i)" "hd (index ! i) < int k" by auto
    then have ck: "nat (hd (index ! i)) < k" by linarith
    have "int j = hd (index ! i) \<longleftrightarrow> j = nat (hd (index ! i))" for j
      using c by linarith
    then show ?thesis
      using that len ck by (simp add: nth_unit_row sum_list_unit_row)
  qed
  show ?thesis
    using res rows len by (intro exI [of _ ?m]) simp
qed

theorem one_hot_rows_witness:
  "one_hot (3, 3) [[2], [0], [1]] False = Inr [[0, 0, 1], [1, 0, 0], [0, 1, 0]] \<and>
   map sum_list [[0, 0, 1], [1, 0, 0], [0, 1, 0::int]] = [1, 1, 1]"
proof -
  have h: "0 < (3::nat)" "0 < (3::nat)" "length [[2], [0], [1::int]] = 3"
    "\<forall>ir\<in>set [[2], [0], [1::int]]. length ir = 1 \<and> 0 \<le> hd ir \<and> hd ir < int 3"
    by simp_all
  have e: "one_hot (3, 3) [[2], [0], [1]] False = Inr [[0, 0, 1], [1, 0, 0], [0, 1, 0]]"
    by (simp add: one_hot_def and_then_def numeral_3_eq_3)
  from one_hot_rows [OF h, of False] e show ?thesis
    by simp
qed

text \<open>
  Claim C10.  For \<open>src[1] \<noteq> src[0]\<close>, \<open>scale\<close> is the affine map that takes \<open>src[0]\<close> to
  \<open>dst[0]\<close> and \<open>src[1]\<close> to \<open>dst[1]\<close>, over any field (the rationals among them).
\<close>

theorem scale_affine:
  fixes val :: "'a::field"
  assumes "snd src \<noteq> fst src"
  shows "scale (fst src) src dst = Inr (fst dst) \<and>
         scale (snd src) src dst = Inr (snd dst) \<and>
         scale val src dst = Inr (fst dst + (val - fst src) * ((snd dst - fst dst) / (snd src - fst src)))"
  using assms by (simp add: scale_def)

theorem scale_affine_witness:
  "snd (2::rat, 4::rat) \<noteq> fst (2::rat, 4::rat) \<and>
   scale (2::rat) (2, 4) (10, 20) = Inr 10 \<and>
   scale (4::rat) (2, 4) (10, 20) = Inr 20 \<and>
   scale (3::rat) (2, 4) (10, 20) = Inr 15"
  using scale_affine [of "(2, 4::rat)" "(10, 20)" 3] by simp

section \<open>Sequencing\<close>

lemma and_then_Inr [simp]: "and_then (Inr v) f = f v"
  by (simp add: and_then_def)

lemma and_then_Inl [simp]: "and_then (Inl e) f = Inl e"
  by (simp add: and_then_def)

lemma and_then_eq_Inr: "and_then r f = Inr y \<longleftrightarrow> (\<exists>v. r = Inr v \<and> f v = Inr y)"
  by (cases r) simp_all

section \<open>Construction\<close>

lemma build_encoder_Inr:
  "layer_type (config self) \<in> {''conv'', ''dense''} \<Longrightarrow> \<exists>enc. build_encoder self = Inr enc"
  by (auto simp: build_encoder_def Let_def)

lemma build_decoder_Inr:
  "layer_type (config self) \<in> {''conv'', ''dense''} \<Longrightarrow> \<exists>dec. build_decoder self = Inr dec"
  by (auto simp: build_decoder_def Let_def)

lemma build_encoder_unknown:
  "layer_type (config self) \<notin> {''conv'', ''dense''} \<Longrightarrow>
     build_encoder self = Inl (Exception ''unknown layer type requested'')"
  by (simp add: build_encoder_def Let_def)

lemma VAE_init_fields:
  assumes "VAE_init shp cfg = Inr v"
  shows "config v = cfg \<and> input_shape v = shp \<and> lazy_modules v = Map.empty"
  using assms
  by (auto simp: VAE_init_def and_then_eq_Inr Let_def split: list.splits if_splits)

lemma VAE_init_Inr:
  assumes "shp \<noteq> []"
    and "reparam_type cfg \<in> {''isotropic_gaussian'', ''discrete'', ''mixture''}"
    and "layer_type cfg \<in> {''conv'', ''dense''}"
  shows "\<exists>v. VAE_init shp cfg = Inr v"
proof -
  from assms(1) obtain c0 rest where shp: "shp = c0 # rest"
    by (cases shp) auto
  from assms(2) obtain rep where rep:
    "(if reparam_type cfg = ''isotropic_gaussian'' then Inr (IsotropicGaussian cfg)
      else if reparam_type cfg = ''discrete'' then Inr (GumbelSoftmax cfg)
      else if reparam_type cfg = ''mixture''
        then Inr (Mixture (discrete_size cfg) (continuous_size cfg) cfg)
      else Inl (Exception ''unknown reparameterization type'')) = Inr rep"
    by auto
  define self where "self = \<lparr>training = True, input_shape = shp, is_color = (1 < c0),
                          chans = (if 1 < c0 then 3 else 1), config = cfg,
                          reparameterizer = rep, encoder = Sequential [],
                          decoder = Sequential [], lazy_modules = Map.empty\<rparr>"
  have "layer_type (config self) \<in> {''conv'', ''dense''}"
    using assms(3) by (simp add: self_def)
  then obtain enc where enc: "build_encoder self = Inr enc"
    using build_encoder_Inr by blast
  have "layer_type (config (self\<lparr>encoder := enc\<rparr>)) \<in> {''conv'', ''dense''}"
    using assms(3) by (simp add: self_def)
  then obtain dec where dec: "build_decoder (self\<lparr>encoder := enc\<rparr>) = Inr dec"
    using build_decoder_Inr by blast
  show ?thesis
    unfolding VAE_init_def shp list.case rep and_then_Inr Let_def
    using enc dec unfolding self_def shp by simp
qed

lemma constructed:
  assumes "shp \<noteq> []"
    and "reparam_type cfg \<in> {''isotropic_gaussian'', ''discrete'', ''mixture''}"
    and "layer_type cfg \<in> {''conv'', ''dense''}"
  obtains v where "VAE_init shp cfg = Inr v" and "config v = cfg" and "input_shape v = shp"
  using VAE_init_Inr [OF assms] VAE_init_fields by blast

lemma VAE_init_unknown_reparam:
  assumes "reparam_type cfg \<notin> {''isotropic_gaussian'', ''discrete'', ''mixture''}"
  shows "VAE_init shp cfg =
           (if shp = [] then Inl IndexError else Inl (Exception ''unknown reparameterization type''))"
  using assms by (cases shp) (simp_all add: VAE_init_def)

lemma VAE_init_unknown_layer:
  assumes "layer_type cfg \<notin> {''conv'', ''dense''}"
    and "reparam_type cfg \<in> {''isotropic_gaussian'', ''discrete'', ''mixture''}"
  shows "VAE_init shp cfg =
           (if shp = [] then Inl IndexError else Inl (Exception ''unknown layer type requested''))"
proof (cases shp)
  case Nil
  then show ?thesis by (simp add: VAE_init_def)
next
  case (Cons c0 rest)
  from assms(2) obtain rep where rep:
    "(if reparam_type cfg = ''isotropic_gaussian'' then Inr (IsotropicGaussian cfg)
      else if reparam_type cfg = ''discrete'' then Inr (GumbelSoftmax cfg)
      else if reparam_type cfg = ''mixture''
        then Inr (Mixture (discrete_size cfg) (continuous_size cfg) cfg)
      else Inl (Exception ''unknown reparameterization type'')) = Inr rep"
    by auto
  show ?thesis
    unfolding VAE_init_def Cons list.case rep and_then_Inr Let_def
    using assms(1) by (simp add: build_encoder_unknown)
qed

lemma nll_unknown_type:
  "nll_type (config self) \<notin> {''gaussian'', ''bernoulli''} \<Longrightarrow>
     nll self recon_x x = Inl (KeyError (nll_type (config self)))"
  by (simp add: nll_def)

text \<open>
  Claim C2, as amended.  An unknown \<open>reparam_type\<close> or \<open>layer_type\<close> makes the
  constructor raise: \<open>Exception\<close> with the message of the type that is unknown (for an
  empty \<open>input_shape\<close> the \<open>IndexError\<close> of \<open>input_shape[0]\<close> comes first).  With a
  non-empty \<open>input_shape\<close> and known values of these two the constructor returns an
  object, whatever \<open>nll_type\<close> is: an unknown \<open>nll_type\<close> is rejected only by the methods
  that dispatch on it, \<open>nll\<close> with a \<open>KeyError\<close> and \<open>nll_activation\<close> with an \<open>Exception\<close>.
\<close>

theorem VAE_init_fail_fast:
  "(reparam_type cfg \<notin> {''isotropic_gaussian'', ''discrete'', ''mixture''} \<longrightarrow>
      VAE_init shp cfg =
        (if shp = [] then Inl IndexError else Inl (Exception ''unknown reparameterization type''))) \<and>
   (reparam_type cfg \<in> {''isotropic_gaussian'', ''discrete'', ''mixture''} \<and>
    layer_type cfg \<notin> {''conv'', ''dense''} \<longrightarrow>
      VAE_init shp cfg =
        (if shp = [] then Inl IndexError else Inl (Exception ''unknown layer type requested''))) \<and>
   (shp \<noteq> [] \<and> reparam_type cfg \<in> {''isotropic_gaussian'', ''discrete'', ''mixture''} \<and>
    layer_type cfg \<in> {''conv'', ''dense''} \<longrightarrow>
      (\<exists>self. VAE_init shp cfg = Inr self \<and> config self = cfg \<and>
         (nll_type cfg \<notin> {''gaussian'', ''bernoulli''} \<longrightarrow>
            nll self recon_x x = Inl (KeyError (nll_type cfg)) \<and>
            nll_activation self logits = Inl (Exception ''unknown nll provided''))))"
proof (intro conjI impI)
  assume "reparam_type cfg \<notin> {''isotropic_gaussian'', ''discrete'', ''mixture''}"
  then show "VAE_init shp cfg =
        (if shp = [] then Inl IndexError else Inl (Exception ''unknown reparameterization type''))"
    by (rule VAE_init_unknown_reparam)
next
  assume "reparam_type cfg \<in> {''isotropic_gaussian'', ''discrete'', ''mixture''} \<and>
    layer_type cfg \<notin> {''conv'', ''dense''}"
  then show "VAE_init shp cfg =
        (if shp = [] then Inl IndexError else Inl (Exception ''unknown layer type requested''))"
    by (intro VAE_init_unknown_layer) simp_all
next
  assume a: "shp \<noteq> [] \<and> reparam_type cfg \<in> {''isotropic_gaussian'', ''discrete'', ''mixture''} \<and>
    layer_type cfg \<in> {''conv'', ''dense''}"
  then obtain self where s: "VAE_init shp cfg = Inr self"
    using VAE_init_Inr [of shp cfg] by blast
  then have c: "config self = cfg"
    by (simp add: VAE_init_fields)
  have "nll self recon_x x = Inl (KeyError (nll_type cfg)) \<and>
        nll_activation self logits = Inl (Exception ''unknown nll provided'')"
    if "nll_type cfg \<notin> {''gaussian'', ''bernoulli''}"
    using that c by (simp add: nll_unknown_type nll_activation_def)
  with s c show "\<exists>self. VAE_init shp cfg = Inr self \<and> config self = cfg \<and>
         (nll_type cfg \<notin> {''gaussian'', ''bernoulli''} \<longrightarrow>
            nll self recon_x x = Inl (KeyError (nll_type cfg)) \<and>
            nll_activation self logits = Inl (Exception ''unknown nll provided''))"
    by blast
qed

theorem VAE_init_fail_fast_witness:
  "VAE_init [1, 28, 28] (example_config\<lparr>reparam_type := ''vamp''\<rparr>)
     = Inl (Exception ''unknown reparameterization type'') \<and>
   VAE_init [1, 28, 28] (example_config\<lparr>layer_type := ''resnet''\<rparr>)
     = Inl (Exception ''unknown layer type requested'') \<and>
   (\<exists>self. VAE_init [1, 28, 28] example_config = Inr self) \<and>
   (\<exists>self. VAE_init [1, 28, 28] (example_config\<lparr>nll_type := ''poisson''\<rparr>) = Inr self \<and>
      nll self \<lparr>shape = [1, 1], data = [0]\<rparr> \<lparr>shape = [1, 1], data = [0]\<rparr> = Inl (KeyError ''poisson''))"
  using VAE_init_fail_fast [of "example_config\<lparr>reparam_type := ''vamp''\<rparr>" "[1, 28, 28]"]
    VAE_init_fail_fast [of "example_config\<lparr>layer_type := ''resnet''\<rparr>" "[1, 28, 28]"]
    VAE_init_fail_fast [of example_config "[1, 28, 28]"]
    VAE_init_fail_fast [of "example_config\<lparr>nll_type := ''poisson''\<rparr>" "[1, 28, 28]"
       "\<lparr>shape = [1, 1], data = [0]\<rparr>" "\<lparr>shape = [1, 1], data = [0]\<rparr>"]
  by (auto simp: example_config_def)

text \<open>
  The claim as stated fails for \<open>nll_type\<close>: with the unknown value \<open>poisson\<close> the
  constructor returns an object.
\<close>

theorem VAE_init_unknown_nll_counterexample:
  "nll_type (example_config\<lparr>nll_type := ''poisson''\<rparr>) \<notin> {''gaussian'', ''bernoulli''} \<and>
   \<not> isl (VAE_init [1, 28, 28] (example_config\<lparr>nll_type := ''poisson''\<rparr>))"
  by (simp add: VAE_init_def example_config_def build_encoder_def build_decoder_def Let_def)

section \<open>The loss\<close>


lemma map2_nth: "length a = length b \<Longrightarrow> map2 f a b = map (\<lambda>i. f (a ! i) (b ! i)) [0..<length a]"
  by (rule nth_equalityI) simp_all

lemma tensor_binop_same: "length a = length b \<Longrightarrow> py_binop f (Tensor a) (Tensor b) = Inr (Tensor (map2 f a b))"
  by (simp add: py_binop_def broadcast2_def)

lemma nll_bernoulli_Inr:
  assumes "nll_bernoulli r x = Inr ys"
  shows "\<exists>b. size0 r = Inr b \<and> 0 < b \<and> length ys = b \<and> shape x = shape r"
  using assms
  by (auto simp: nll_bernoulli_def and_then_eq_Inr view_rows_def split: if_splits)

lemma nll_gaussian_raises: "isl (nll_gaussian self r x lv)"
  by (simp add: nll_gaussian_def)

lemma nll_Inr:
  assumes "nll self r x = Inr ys"
  shows "nll_type (config self) = ''bernoulli'' \<and> nll_bernoulli r x = Inr ys"
  using assms nll_gaussian_raises [of self r x 1]
  by (auto simp: nll_def Let_def split: if_splits)

lemma nll_nonempty: "nll self r x = Inr ys \<Longrightarrow> ys \<noteq> []"
  by (auto dest!: nll_Inr nll_bernoulli_Inr)

lemma nll_length: "nll self r x = Inr ys \<Longrightarrow> size0 r = Inr b \<Longrightarrow> length ys = b"
  by (auto dest!: nll_Inr nll_bernoulli_Inr)

text \<open>
  The dictionary \<open>loss_function\<close> returns when the negative log-likelihood, the KL term
  and (for a mixture) the regularizer each return one value per batch row.
\<close>

lemma loss_function_value:
  assumes n: "nll self recon_x x = Inr nll_t"
    and k: "kl ops params = Inr kld_t" and lk: "length kld_t = length nll_t"
    and mi: "if reparam_type (config self) = ''mixture''
             then mutual_info ops params = Inr mut_info \<and> length mut_info = length nll_t
             else mut_info = replicate (length nll_t) 0"
    and mr: "mr = fval (mut_reg (config self))"
    and elbo: "elbo = map (\<lambda>i. nll_t ! i + kld_t ! i) [0..<length nll_t]"
    and loss: "loss = map (\<lambda>i. nll_t ! i + kld_t ! i - mr * mut_info ! i) [0..<length nll_t]"
  shows "loss_function ops self recon_x x params =
           Inr [''loss'' \<mapsto> Tensor loss,
                ''loss_mean'' \<mapsto> Tensor [sum_list loss / real (length loss)],
                ''elbo_mean'' \<mapsto> Tensor [sum_list elbo / real (length elbo)],
                ''nll_mean'' \<mapsto> Tensor [sum_list nll_t / real (length nll_t)],
                ''kld_mean'' \<mapsto> Tensor [sum_list kld_t / real (length kld_t)],
                ''mut_info_mean'' \<mapsto>
                   (if reparam_type (config self) = ''mixture''
                    then Tensor [sum_list mut_info / real (length mut_info)] else PyFloat 0)]"
proof -
  have ne: "nll_t \<noteq> []"
    using n by (rule nll_nonempty)
  have e: "py_binop (+) (Tensor nll_t) (Tensor kld_t) = Inr (Tensor elbo)"
    using lk by (simp add: tensor_binop_same map2_nth elbo)
  have ne': "elbo \<noteq> []" "loss \<noteq> []" "kld_t \<noteq> []"
    using ne lk by (auto simp: elbo loss)
  show ?thesis
  proof (cases "reparam_type (config self) = ''mixture''")
    case True
    with mi have m: "mutual_info ops params = Inr mut_info" "length mut_info = length nll_t"
      by simp_all
    have mne: "mut_info \<noteq> []"
      using m(2) ne by auto
    have "map ((+) 0) mut_info = mut_info"
      by (induction mut_info) simp_all
    then have a: "py_binop (+) (PyFloat 0) (Tensor mut_info) = Inr (Tensor mut_info)"
      by (simp add: py_binop_def)
    have r: "py_binop (*) (PyFloat mr) (Tensor mut_info) = Inr (Tensor (map ((*) mr) mut_info))"
      by (simp add: py_binop_def)
    have l: "py_binop (-) (Tensor elbo) (Tensor (map ((*) mr) mut_info)) = Inr (Tensor loss)"
      using m(2) by (simp add: tensor_binop_same elbo loss map2_nth)
    show ?thesis
      using True n k e m(1) a r l ne ne' mne
      by (simp add: loss_function_def kld_def py_mean_def torch_mean_def flip: mr)
  next
    case False
    with mi have m: "mut_info = replicate (length nll_t) 0" by simp
    have "map (\<lambda>x. x - mr * 0) elbo = loss"
      by (simp add: elbo loss m)
    then have l: "py_binop (-) (Tensor elbo) (PyFloat (mr * 0)) = Inr (Tensor loss)"
      by (simp add: py_binop_def)
    have r: "py_binop (*) (PyFloat mr) (PyFloat 0) = Inr (PyFloat (mr * 0))"
      by (simp add: py_binop_def)
    show ?thesis
      using False n k e
      by (simp add: loss_function_def kld_def py_mean_def torch_mean_def r l ne ne'
          del: mult_zero_right flip: mr)
  qed
qed

lemma loss_function_parts:
  assumes "loss_function ops self recon_x x params = Inr m"
  shows "\<exists>nll_t kld_t. nll self recon_x x = Inr nll_t \<and> kl ops params = Inr kld_t \<and>
           (reparam_type (config self) = ''mixture'' \<longrightarrow> (\<exists>mi. mutual_info ops params = Inr mi))"
proof -
  from assms obtain nll_t kld_t elbo mut_info
    where n: "nll self recon_x x = Inr nll_t" and k: "kl ops params = Inr kld_t"
      and mi: "(if reparam_type (config self) = ''mixture''
                then and_then (mutual_info ops params) (\<lambda>mi. py_binop (+) (PyFloat 0) (Tensor mi))
                else Inr (PyFloat 0)) = Inr mut_info"
    unfolding loss_function_def kld_def and_then_eq_Inr by blast
  from mi have "reparam_type (config self) = ''mixture'' \<longrightarrow> (\<exists>mi. mutual_info ops params = Inr mi)"
    by (auto simp: and_then_eq_Inr)
  with n k show ?thesis by blast
qed

text \<open>
  Claim C1.  When the negative log-likelihood and the KL term (and, for a mixture, the
  regularizer) return one value per batch row, \<open>loss_function\<close> returns a dictionary
  with \<open>loss = nll + kld - mut_reg * mut_info\<close> elementwise, where \<open>mut_info\<close> is zero
  unless the reparameterizer is the mixture; \<open>loss_mean\<close>, \<open>elbo_mean\<close>, \<open>nll_mean\<close> and
  \<open>kld_mean\<close> are the batch means of the loss, of \<open>nll + kld\<close>, of \<open>nll\<close> and of \<open>kld\<close>;
  and when \<open>mut_info\<close> is zero everywhere, the loss is \<open>nll + kld\<close>.
\<close>

theorem loss_function_identity:
  assumes n: "nll self recon_x x = Inr nll_t"
    and k: "kl ops params = Inr kld_t" and lk: "length kld_t = length nll_t"
    and mi: "if reparam_type (config self) = ''mixture''
             then mutual_info ops params = Inr mut_info \<and> length mut_info = length nll_t
             else mut_info = replicate (length nll_t) 0"
  shows "\<exists>m. loss_function ops self recon_x x params = Inr m \<and>
           (let mr = fval (mut_reg (config self));
                elbo = map (\<lambda>i. nll_t ! i + kld_t ! i) [0..<length nll_t];
                loss = map (\<lambda>i. nll_t ! i + kld_t ! i - mr * mut_info ! i) [0..<length nll_t]
            in m ''loss'' = Some (Tensor loss) \<and>
               m ''loss_mean'' = Some (Tensor [sum_list loss / real (length loss)]) \<and>
               m ''elbo_mean'' = Some (Tensor [sum_list elbo / real (length elbo)]) \<and>
               m ''nll_mean'' = Some (Tensor [sum_list nll_t / real (length nll_t)]) \<and>
               m ''kld_mean'' = Some (Tensor [sum_list kld_t / real (length kld_t)]) \<and>
               ((\<forall>v\<in>set mut_info. v = 0) \<longrightarrow> loss = elbo))"
proof -
  define mr where "mr = fval (mut_reg (config self))"
  define elbo where "elbo = map (\<lambda>i. nll_t ! i + kld_t ! i) [0..<length nll_t]"
  define loss where "loss = map (\<lambda>i. nll_t ! i + kld_t ! i - mr * mut_info ! i) [0..<length nll_t]"
  have zero: "loss = elbo" if "\<forall>v\<in>set mut_info. v = 0"
  proof -
    have "length mut_info = length nll_t"
      using mi by (simp split: if_splits)
    with that have "mut_info ! i = 0" if "i < length nll_t" for i
      using that by simp
    then show ?thesis by (simp add: loss_def elbo_def)
  qed
  have "\<exists>m. loss_function ops self recon_x x params = Inr m \<and>
          m ''loss'' = Some (Tensor loss) \<and>
          m ''loss_mean'' = Some (Tensor [sum_list loss / real (length loss)]) \<and>
          m ''elbo_mean'' = Some (Tensor [sum_list elbo / real (length elbo)]) \<and>
          m ''nll_mean'' = Some (Tensor [sum_list nll_t / real (length nll_t)]) \<and>
          m ''kld_mean'' = Some (Tensor [sum_list kld_t / real (length kld_t)])"
    by (simp add: loss_function_value [OF n k lk mi mr_def elbo_def loss_def])
  with zero show ?thesis
    unfolding Let_def mr_def [symmetric] elbo_def [symmetric] loss_def [symmetric] by blast
qed

lemma upt_0_2: "[0..<2] = [0, Suc 0]"
  by (simp add: numeral_2_eq_2)

lemma bernoulli_elem_zero: "bernoulli_elem 0 t = ln 2"
  by (simp add: bernoulli_elem_softplus)

lemma example_nll:
  assumes "nll_type (config self) = ''bernoulli''"
  shows "nll self \<lparr>shape = [2, 1, 1, 1], data = [0, 0]\<rparr> \<lparr>shape = [2, 1, 1, 1], data = [1, 0]\<rparr>
           = Inr [ln 2, ln 2]"
  using assms
  by (simp add: nll_def nll_bernoulli_def size0_def view_rows_def numel_def row_def
      bernoulli_elem_zero upt_0_2)

lemma example_vae: "\<exists>self. VAE_init [1, 1, 1] example_config = Inr self \<and> config self = example_config"
proof -
  have "\<exists>v. VAE_init [1, 1, 1] example_config = Inr v"
    by (rule VAE_init_Inr) (simp_all add: example_config_def)
  then show ?thesis
    by (auto dest: VAE_init_fields)
qed

theorem loss_function_identity_witness:
  "\<exists>self. VAE_init [1, 1, 1] example_config = Inr self \<and>
     (\<exists>m. loss_function (example_ops [10, 20]) self
             \<lparr>shape = [2, 1, 1, 1], data = [0, 0]\<rparr> \<lparr>shape = [2, 1, 1, 1], data = [1, 0]\<rparr> () = Inr m \<and>
           m ''loss'' = Some (Tensor [ln 2 + 1 - 3 / 10 * 10, ln 2 + 2 - 3 / 10 * 20]) \<and>
           m ''nll_mean'' = Some (Tensor [(ln 2 + ln 2) / 2]) \<and>
           m ''kld_mean'' = Some (Tensor [3 / 2]))"
proof -
  from example_vae obtain self
    where s: "VAE_init [1, 1, 1] example_config = Inr self" and c: "config self = example_config"
    by blast
  have n: "nll self \<lparr>shape = [2, 1, 1, 1], data = [0, 0]\<rparr> \<lparr>shape = [2, 1, 1, 1], data = [1, 0]\<rparr>
             = Inr [ln 2, ln 2]"
    by (rule example_nll) (simp add: c example_config_def)
  have k: "kl (example_ops [10, 20]) () = Inr [1, 2]"
    by (simp add: example_ops_def)
  have lk: "length [1, 2 :: real] = length [ln 2, ln 2 :: real]"
    by simp
  have mi: "if reparam_type (config self) = ''mixture''
            then mutual_info (example_ops [10, 20]) () = Inr [10, 20] \<and>
                 length [10, 20 :: real] = length [ln 2, ln 2 :: real]
            else [10, 20] = replicate (length [ln 2, ln 2 :: real]) 0"
    by (simp add: c example_config_def example_ops_def)
  from loss_function_identity [OF n k lk mi]
  obtain m where ret: "loss_function (example_ops [10, 20]) self
             \<lparr>shape = [2, 1, 1, 1], data = [0, 0]\<rparr> \<lparr>shape = [2, 1, 1, 1], data = [1, 0]\<rparr> () = Inr m"
    and props: "let mr = fval (mut_reg (config self));
                elbo = map (\<lambda>i. [ln 2, ln 2] ! i + [1, 2] ! i) [0..<length [ln 2, ln 2 :: real]];
                loss = map (\<lambda>i. [ln 2, ln 2] ! i + [1, 2] ! i - mr * [10, 20] ! i) [0..<length [ln 2, ln 2 :: real]]
            in m ''loss'' = Some (Tensor loss) \<and>
               m ''loss_mean'' = Some (Tensor [sum_list loss / real (length loss)]) \<and>
               m ''elbo_mean'' = Some (Tensor [sum_list elbo / real (length elbo)]) \<and>
               m ''nll_mean'' = Some (Tensor [sum_list [ln 2, ln 2] / real (length [ln 2, ln 2 :: real])]) \<and>
               m ''kld_mean'' = Some (Tensor [sum_list [1, 2] / real (length [1, 2 :: real])]) \<and>
               ((\<forall>v\<in>set [10, 20 :: real]. v = 0) \<longrightarrow> loss = elbo)"
    by blast
  from props have "m ''loss'' = Some (Tensor [ln 2 + 1 - 3 / 10 * 10, ln 2 + 2 - 3 / 10 * 20])"
     "m ''nll_mean'' = Some (Tensor [(ln 2 + ln 2) / 2])"
     "m ''kld_mean'' = Some (Tensor [3 / 2])"
    by (simp_all add: Let_def c example_config_def upt_0_2)
  with s ret show ?thesis by blast
qed

text \<open>
  Claim C8.  A dictionary that \<open>loss_function\<close> returns has exactly the keys \<open>loss\<close>,
  \<open>loss_mean\<close>, \<open>elbo_mean\<close>, \<open>nll_mean\<close>, \<open>kld_mean\<close> and \<open>mut_info_mean\<close>, and its \<open>loss\<close>
  is a tensor with one entry per batch row (the reparameterizer's methods returning
  one value per batch row).
\<close>

theorem loss_function_keys:
  assumes ret: "loss_function ops self recon_x x params = Inr m"
    and b: "size0 recon_x = Inr b"
    and klc: "\<forall>t. kl ops params = Inr t \<longrightarrow> length t = b"
    and mic: "\<forall>t. mutual_info ops params = Inr t \<longrightarrow> length t = b"
  shows "dom m = {''loss'', ''loss_mean'', ''elbo_mean'', ''nll_mean'', ''kld_mean'', ''mut_info_mean''} \<and>
         (\<exists>l. m ''loss'' = Some (Tensor l) \<and> length l = b)"
proof -
  from loss_function_parts [OF ret] obtain nll_t kld_t
    where n: "nll self recon_x x = Inr nll_t" and k: "kl ops params = Inr kld_t"
      and mix: "reparam_type (config self) = ''mixture'' \<longrightarrow> (\<exists>mi. mutual_info ops params = Inr mi)"
    by blast
  have ln: "length nll_t = b"
    using n b by (rule nll_length)
  have lk: "length kld_t = length nll_t"
    using k klc ln by simp
  obtain mut_info where mi: "if reparam_type (config self) = ''mixture''
             then mutual_info ops params = Inr mut_info \<and> length mut_info = length nll_t
             else mut_info = replicate (length nll_t) 0"
    using mix mic ln by (cases "reparam_type (config self) = ''mixture''") auto
  have "m = [''loss'' \<mapsto> Tensor (map (\<lambda>i. nll_t ! i + kld_t ! i - fval (mut_reg (config self)) * mut_info ! i) [0..<length nll_t]),
             ''loss_mean'' \<mapsto> Tensor [sum_list (map (\<lambda>i. nll_t ! i + kld_t ! i - fval (mut_reg (config self)) * mut_info ! i) [0..<length nll_t]) /
                     real (length (map (\<lambda>i. nll_t ! i + kld_t ! i - fval (mut_reg (config self)) * mut_info ! i) [0..<length nll_t]))],
             ''elbo_mean'' \<mapsto> Tensor [sum_list (map (\<lambda>i. nll_t ! i + kld_t ! i) [0..<length nll_t]) /
                     real (length (map (\<lambda>i. nll_t ! i + kld_t ! i) [0..<length nll_t]))],
             ''nll_mean'' \<mapsto> Tensor [sum_list nll_t / real (length nll_t)],
             ''kld_mean'' \<mapsto> Tensor [sum_list kld_t / real (length kld_t)],
             ''mut_info_mean'' \<mapsto>
                   (if reparam_type (config self) = ''mixture''
                    then Tensor [sum_list mut_info / real (length mut_info)] else PyFloat 0)]"
    using ret loss_function_value [OF n k lk mi refl refl refl] by simp
  then show ?thesis
    using ln by auto
qed

theorem loss_function_keys_witness:
  "\<exists>self. VAE_init [1, 1, 1] example_config = Inr self \<and>
     (\<exists>m. loss_function (example_ops [0, 0]) self
             \<lparr>shape = [2, 1, 1, 1], data = [0, 0]\<rparr> \<lparr>shape = [2, 1, 1, 1], data = [1, 0]\<rparr> () = Inr m \<and>
           dom m = {''loss'', ''loss_mean'', ''elbo_mean'', ''nll_mean'', ''kld_mean'', ''mut_info_mean''} \<and>
           (\<exists>l. m ''loss'' = Some (Tensor l) \<and> length l = 2))"
proof -
  from example_vae obtain self
    where s: "VAE_init [1, 1, 1] example_config = Inr self" and c: "config self = example_config"
    by blast
  have n: "nll self \<lparr>shape = [2, 1, 1, 1], data = [0, 0]\<rparr> \<lparr>shape = [2, 1, 1, 1], data = [1, 0]\<rparr>
             = Inr [ln 2, ln 2]"
    by (rule example_nll) (simp add: c example_config_def)
  have k: "kl (example_ops [0, 0]) () = Inr [1, 2]"
    by (simp add: example_ops_def)
  have mi: "if reparam_type (config self) = ''mixture''
            then mutual_info (example_ops [0, 0]) () = Inr [0, 0] \<and>
                 length [0, 0 :: real] = length [ln 2, ln 2 :: real]
            else [0, 0] = replicate (length [ln 2, ln 2 :: real]) 0"
    by (simp add: c example_config_def example_ops_def)
  have lk: "length [1, 2 :: real] = length [ln 2, ln 2 :: real]"
    by simp
  obtain m where ret: "loss_function (example_ops [0, 0]) self
             \<lparr>shape = [2, 1, 1, 1], data = [0, 0]\<rparr> \<lparr>shape = [2, 1, 1, 1], data = [1, 0]\<rparr> () = Inr m"
    using loss_function_value [OF n k lk mi refl refl refl] by (rule that)
  have b: "size0 \<lparr>shape = [2, 1, 1, 1], data = [0, 0]\<rparr> = Inr 2"
    by (simp add: size0_def)
  have klc: "\<forall>t. kl (example_ops [0, 0]) () = Inr t \<longrightarrow> length t = 2"
    and mic: "\<forall>t. mutual_info (example_ops [0, 0]) () = Inr t \<longrightarrow> length t = 2"
    by (auto simp: example_ops_def)
  note keys = loss_function_keys [OF ret b klc mic]
  show ?thesis
  proof (rule exI [of _ self], rule conjI [OF s], rule exI [of _ m], intro conjI)
    show "loss_function (example_ops [0, 0]) self
             \<lparr>shape = [2, 1, 1, 1], data = [0, 0]\<rparr> \<lparr>shape = [2, 1, 1, 1], data = [1, 0]\<rparr> () = Inr m"
      by (rule ret)
    show "dom m = {''loss'', ''loss_mean'', ''elbo_mean'', ''nll_mean'', ''kld_mean'', ''mut_info_mean''}"
      by (rule keys [THEN conjunct1])
    show "\<exists>l. m ''loss'' = Some (Tensor l) \<and> length l = 2"
      by (rule keys [THEN conjunct2])
  qed
qed

section \<open>The Gaussian negative log-likelihood\<close>

text \<open>
  Claim C3.  The claim is that \<open>nll\<close> with \<open>nll_type = gaussian\<close> returns the negated
  Gaussian log-likelihood per example.  On a constructed object and a batch of one
  \<open>1 \<times> 1 \<times> 1\<close> image the call raises \<open>AttributeError\<close> instead: the helpers are local
  functions of \<open>nll_gaussian\<close>, and the return statement looks them up on \<open>self\<close>.
\<close>

theorem nll_gaussian_attribute_error:
  "and_then (VAE_init [1, 1, 1] (example_config\<lparr>nll_type := ''gaussian''\<rparr>))
     (\<lambda>self. nll self \<lparr>shape = [1, 1, 1, 1], data = [0]\<rparr> \<lparr>shape = [1, 1, 1, 1], data = [0]\<rparr>)
   = Inl (AttributeError ''_log_unnormalized_prob'')"
  by (simp add: VAE_init_def example_config_def build_encoder_def build_decoder_def Let_def
      nll_def nll_gaussian_def hasattr_def class_attributes_def)

text \<open>
  Claim C7.  For a reconstruction and a target of different sizes \<open>nll\<close> returns no
  value: it raises, whatever the configured \<open>nll_type\<close>.  In the Bernoulli branch the
  exception is the \<open>AssertionError\<close> of the size assertion.
\<close>

theorem nll_shape_mismatch_fails:
  assumes "shape x \<noteq> shape recon_x"
  shows "isl (nll self recon_x x) \<and>
         (nll_type (config self) = ''bernoulli'' \<longrightarrow> nll self recon_x x = Inl AssertionError)"
proof -
  have "nll self recon_x x = Inl AssertionError" if "nll_type (config self) = ''bernoulli''"
    using that assms by (simp add: nll_def nll_bernoulli_def)
  moreover have "isl (nll self recon_x x)" if "nll_type (config self) = ''gaussian''"
    using that nll_gaussian_raises [of self recon_x x 1] by (simp add: nll_def)
  moreover have "isl (nll self recon_x x)"
    if "nll_type (config self) \<noteq> ''bernoulli''" "nll_type (config self) \<noteq> ''gaussian''"
    using that by (simp add: nll_def)
  ultimately show ?thesis
    by (cases "nll_type (config self) = ''bernoulli''") auto
qed

theorem nll_shape_mismatch_fails_witness:
  "(\<exists>self. VAE_init [1, 1, 2] example_config = Inr self \<and>
      nll self \<lparr>shape = [1, 1, 1, 2], data = [0, 0]\<rparr> \<lparr>shape = [1, 1, 1, 3], data = [0, 0, 0]\<rparr>
        = Inl AssertionError) \<and>
   (\<exists>self. VAE_init [1, 1, 2] (example_config\<lparr>nll_type := ''gaussian''\<rparr>) = Inr self \<and>
      isl (nll self \<lparr>shape = [1, 1, 1, 2], data = [0, 0]\<rparr> \<lparr>shape = [1, 1, 1, 3], data = [0, 0, 0]\<rparr>))"
proof -
  let ?r = "\<lparr>shape = [1, 1, 1, 2], data = [0, 0]\<rparr>"
  let ?x = "\<lparr>shape = [1, 1, 1, 3], data = [0, 0, 0]\<rparr>"
  have d: "shape ?x \<noteq> shape ?r" by simp
  obtain a where a: "VAE_init [1, 1, 2] example_config = Inr a" and ca: "config a = example_config"
    by (rule constructed [of "[1, 1, 2]" example_config]) (simp_all add: example_config_def)
  obtain b where b: "VAE_init [1, 1, 2] (example_config\<lparr>nll_type := ''gaussian''\<rparr>) = Inr b"
    by (rule constructed [of "[1, 1, 2]" "example_config\<lparr>nll_type := ''gaussian''\<rparr>"])
       (simp_all add: example_config_def)
  from nll_shape_mismatch_fails [OF d, of a] have "nll a ?r ?x = Inl AssertionError"
    by (simp add: ca example_config_def)
  moreover from nll_shape_mismatch_fails [OF d, of b] have "isl (nll b ?r ?x)"
    by blast
  ultimately show ?thesis
    using a b by blast
qed

section \<open>The lazy projection\<close>

text \<open>
  Claim C5, as amended.  The projection \<open>enc_proj\<close> is built at most once: by the first
  \<open>encode\<close> (or \<open>forward\<close>) call whose encoder pass succeeds, with the width measured on
  that call; a call whose encoder pass fails builds nothing.  Once it exists no call
  rebuilds or changes it, and \<open>encode\<close> does not compare its input with the size seen
  first: it returns what the stored layer returns on the encoder's output, so an input
  of another spatial shape is accepted exactly when the encoder and the stored layer
  accept it.
\<close>

theorem lazy_projection_built_once:
  "(lazy_modules self ''enc_proj'' = None \<and> module_size (training self) (encoder self) x = Inr conv \<longrightarrow>
      lazy_modules (fst (encode self x)) ''enc_proj'' =
        Some (let m = Sequential [View [- 1, int (prod_list (tl conv))],
                                  Linear (prod_list (tl conv)) (reparam_input_size (reparameterizer self))]
              in if 1 < ngpu (config self) then DataParallel m else m)) \<and>
   (isl (module_size (training self) (encoder self) x) \<longrightarrow> fst (encode self x) = self) \<and>
   (lazy_modules self ''enc_proj'' = Some p \<longrightarrow>
      fst (encode self x) = self \<and>
      snd (encode self x) = and_then (module_size (training self) (encoder self) x) (module_size (training self) p)) \<and>
   fst (forward self x) = fst (encode self x)"
proof -
  have h: "hasattr self ''enc_proj'' \<longleftrightarrow> lazy_modules self ''enc_proj'' \<noteq> None"
    by (simp add: hasattr_def class_attributes_def)
  have a: "lazy_modules (fst (encode self x)) ''enc_proj'' =
        Some (let m = Sequential [View [- 1, int (prod_list (tl conv))],
                                  Linear (prod_list (tl conv)) (reparam_input_size (reparameterizer self))]
              in if 1 < ngpu (config self) then DataParallel m else m)"
    if "lazy_modules self ''enc_proj'' = None" "module_size (training self) (encoder self) x = Inr conv"
    using that by (simp add: encode_def lazy_init_dense_def h Let_def)
  have b: "fst (encode self x) = self" if "isl (module_size (training self) (encoder self) x)"
    using that by (cases "module_size (training self) (encoder self) x") (simp_all add: encode_def)
  have c: "fst (encode self x) = self \<and>
      snd (encode self x) = and_then (module_size (training self) (encoder self) x) (module_size (training self) p)"
    if "lazy_modules self ''enc_proj'' = Some p"
    using that
    by (cases "module_size (training self) (encoder self) x") (simp_all add: encode_def lazy_init_dense_def h Let_def)
  have d: "fst (forward self x) = fst (encode self x)"
    by (cases "encode self x") (auto simp: forward_def split: sum.splits)
  from a b c d show ?thesis by blast
qed

lemma encode_encoder: "encoder (fst (encode self x)) = encoder self"
  by (cases "module_size (training self) (encoder self) x")
     (simp_all add: encode_def lazy_init_dense_def Let_def)

lemma encode_training: "training (fst (encode self x)) = training self"
  by (cases "module_size (training self) (encoder self) x")
     (simp_all add: encode_def lazy_init_dense_def Let_def)

lemma example_conv_encoder:
  "\<exists>self. VAE_init [1, 28, 28] example_config = Inr self \<and>
     lazy_modules self ''enc_proj'' = None \<and>
     reparam_input_size (reparameterizer self) = 26 \<and>
     ngpu (config self) = 1 \<and> training self \<and>
     (\<forall>h w. 0 < h \<and> 0 < w \<longrightarrow> module_size True (encoder self) [2, 1, h, w] = Inr [2, 26, 1, 1])"
  by (simp add: VAE_init_def example_config_def build_encoder_def build_decoder_def
      layer_size_def Let_def)

theorem lazy_projection_built_once_witness:
  "\<exists>self. VAE_init [1, 28, 28] example_config = Inr self \<and>
     lazy_modules self ''enc_proj'' = None \<and>
     lazy_modules (fst (encode self [2, 1, 28, 28])) ''enc_proj''
       = Some (Sequential [View [- 1, 26], Linear 26 26]) \<and>
     fst (encode (fst (encode self [2, 1, 28, 28])) [2, 1, 14, 14]) = fst (encode self [2, 1, 28, 28]) \<and>
     snd (encode (fst (encode self [2, 1, 28, 28])) [2, 1, 14, 14]) = Inr [2, 26]"
proof -
  from example_conv_encoder obtain self
    where s: "VAE_init [1, 28, 28] example_config = Inr self"
      and none: "lazy_modules self ''enc_proj'' = None"
      and isz: "reparam_input_size (reparameterizer self) = 26"
      and ngpu: "ngpu (config self) = 1" and tr: "training self"
      and enc: "\<And>h w. 0 < h \<Longrightarrow> 0 < w \<Longrightarrow> module_size True (encoder self) [2, 1, h, w] = Inr [2, 26, 1, 1]"
    by blast
  define self1 where "self1 = fst (encode self [2, 1, 28, 28])"
  have first: "lazy_modules self1 ''enc_proj'' = Some (Sequential [View [- 1, 26], Linear 26 26])"
    using lazy_projection_built_once [of self "[2, 1, 28, 28]" "[2, 26, 1, 1]"] none enc isz ngpu tr
    by (simp add: self1_def)
  have same_encoder: "encoder self1 = encoder self" "training self1 = True"
    unfolding self1_def using tr by (simp_all add: encode_encoder encode_training)
  have later: "fst (encode self1 [2, 1, 14, 14]) = self1 \<and>
      snd (encode self1 [2, 1, 14, 14]) =
        and_then (module_size (training self1) (encoder self1) [2, 1, 14, 14])
          (module_size (training self1) (Sequential [View [- 1, 26], Linear 26 26]))"
    using lazy_projection_built_once [of self1 _ _ "Sequential [View [- 1, 26], Linear 26 26]"] first
    by blast
  have "and_then (module_size (training self1) (encoder self1) [2, 1, 14, 14])
          (module_size (training self1) (Sequential [View [- 1, 26], Linear 26 26])) = Inr [2, 26]"
    using enc by (simp add: same_encoder layer_size_def view_size_def)
  with later s none first show ?thesis
    unfolding self1_def by auto
qed

text \<open>
  The claim as stated fails: after a forward pass on a batch of \<open>28 \<times> 28\<close> images, a forward
  pass on a batch of \<open>14 \<times> 14\<close> images is not rejected.  The encoder of this model (input
  shape \<open>1 \<times> 28 \<times> 28\<close>) starts by resampling its input to \<open>32 \<times> 32\<close>, and the stored
  projection is applied to its output.
\<close>

theorem forward_other_shape_accepted_counterexample:
  "two_forward_calls [1, 28, 28] example_config [2, 1, 28, 28] [2, 1, 14, 14]
     = Inr (Inr [2, 1, 28, 28], Inr [2, 1, 28, 28])"
  by (simp add: two_forward_calls_def VAE_init_def example_config_def build_encoder_def
      build_decoder_def forward_def encode_def decode_def lazy_init_dense_def hasattr_def
      class_attributes_def layer_size_def view_size_def reparameterize_size_def Let_def)

text \<open>
  For a model of \<open>32 \<times> 32\<close> images the encoder starts with \<^verbatim>\<open>Identity\<close>, and what a later
  input of another shape meets depends on the stored layer: after a first pass on
  \<open>64 \<times> 64\<close> images a pass on \<open>32 \<times> 32\<close> images is refused by the view of the stored layer;
  after a first pass on \<open>32 \<times> 32\<close> images a pass on two \<open>64 \<times> 64\<close> images is accepted and
  comes back as a batch of 162.
\<close>

lemma forward_other_shape_refused_or_regrouped:
  "two_forward_calls [1, 32, 32] example_config [2, 1, 64, 64] [2, 1, 32, 32]
     = Inr (Inr [2, 1, 32, 32], Inl (RuntimeError ''view: size mismatch''))"
  "two_forward_calls [1, 32, 32] example_config [2, 1, 32, 32] [2, 1, 64, 64]
     = Inr (Inr [2, 1, 32, 32], Inr [162, 1, 32, 32])"
  by (simp_all add: two_forward_calls_def VAE_init_def example_config_def build_encoder_def
      build_decoder_def forward_def encode_def decode_def lazy_init_dense_def hasattr_def
      class_attributes_def layer_size_def view_size_def reparameterize_size_def Let_def)

section \<open>The name of a model\<close>

declare str_nat.simps [simp del]

lemma replace_append: "replace a b (s @ t) = replace a b s @ replace a b t"
  by (simp add: replace_def)

lemma normalise_append: "normalise (s @ t) = normalise s @ normalise t"
  by (simp add: normalise_def py_lower_def replace_append)

lemma normalise_Nil: "normalise [] = []"
  by (simp add: normalise_def py_lower_def replace_def)

lemma normalise_Cons: "normalise (c # s) = normalise [c] @ normalise s"
  using normalise_append [of "[c]" s] by simp

lemma normalise_plain:
  "list_all (\<lambda>c. normalise [c] = [c]) s \<Longrightarrow> normalise s = s"
proof (induction s)
  case Nil
  then show ?case by (simp add: normalise_Nil)
next
  case (Cons c s)
  then show ?case by (simp add: normalise_Cons [of c s])
qed

lemma float_chars_plain:
  "list_all (\<lambda>c. normalise [c] = [c] \<and> \<not> is_space c) ''0123456789.e+-infa''"
  by code_simp

lemma normalise_float_char:
  "c \<in> set ''0123456789.e+-infa'' \<Longrightarrow> normalise [c] = [c]"
  using float_chars_plain unfolding list_all_iff by blast

lemma not_space_float_char:
  "c \<in> set ''0123456789.e+-infa'' \<Longrightarrow> \<not> is_space c"
  using float_chars_plain unfolding list_all_iff by blast

lemma digit_char_float_char: "d < 10 \<Longrightarrow> digit_char d \<in> set ''0123456789''"
  unfolding digit_char_def by (rule nth_mem) simp

lemma digit_char_inj:
  assumes "d < 10" and "e < 10" and "digit_char d = digit_char e"
  shows "d = e"
proof -
  have "distinct ''0123456789''" by simp
  moreover have "d < length ''0123456789''" "e < length ''0123456789''"
    using assms by simp_all
  ultimately show ?thesis
    using assms(3) unfolding digit_char_def by (simp only: nth_eq_iff_index_eq)
qed

lemma str_nat_digits: "set (str_nat n) \<subseteq> set ''0123456789''"
proof (induction n rule: str_nat.induct)
  case (1 n)
  show ?case
  proof (cases "n < 10")
    case True
    then show ?thesis
      using digit_char_float_char [of n] by (subst str_nat.simps) simp
  next
    case False
    have "n mod 10 < 10" by simp
    then have "digit_char (n mod 10) \<in> set ''0123456789''"
      by (rule digit_char_float_char)
    with False 1 show ?thesis
      by (subst str_nat.simps) simp
  qed
qed

lemma str_nat_nonempty: "str_nat n \<noteq> []"
  by (subst str_nat.simps) simp

lemma str_nat_inj: "str_nat n = str_nat m \<Longrightarrow> n = m"
proof (induction n arbitrary: m rule: str_nat.induct)
  case (1 n)
  note eq = \<open>str_nat n = str_nat m\<close>
  have big: "length (str_nat k) \<ge> 2" if "\<not> k < 10" for k
  proof -
    have "str_nat (k div 10) \<noteq> []" by (rule str_nat_nonempty)
    then have "length (str_nat (k div 10)) \<ge> 1"
      by (cases "str_nat (k div 10)") simp_all
    with that show ?thesis by (subst str_nat.simps) simp
  qed
  have small: "str_nat k = [digit_char k]" if "k < 10" for k
    using that by (subst str_nat.simps) simp
  show ?case
  proof (cases "n < 10")
    case n: True
    show ?thesis
    proof (cases "m < 10")
      case True
      with n eq show ?thesis by (simp add: small digit_char_inj)
    next
      case False
      have "length (str_nat n) = 1" using n by (simp add: small)
      with big [OF False] eq show ?thesis by simp
    qed
  next
    case n: False
    show ?thesis
    proof (cases "m < 10")
      case True
      have "length (str_nat m) = 1" using True by (simp add: small)
      with big [OF n] eq show ?thesis by simp
    next
      case False
      have "str_nat n = str_nat (n div 10) @ [digit_char (n mod 10)]"
        using n by (subst str_nat.simps) simp
      moreover have "str_nat m = str_nat (m div 10) @ [digit_char (m mod 10)]"
        using False by (subst str_nat.simps) simp
      ultimately have a: "str_nat (n div 10) = str_nat (m div 10)"
        and b: "digit_char (n mod 10) = digit_char (m mod 10)"
        using eq by simp_all
      from n a have "n div 10 = m div 10"
        by (rule "1.IH")
      moreover from b have "n mod 10 = m mod 10"
        by (intro digit_char_inj) simp_all
      ultimately show ?thesis
        by (metis div_mult_mod_eq)
    qed
  qed
qed

lemma normalise_str_nat: "normalise (str_nat n) = str_nat n"
proof (rule normalise_plain)
  show "list_all (\<lambda>c. normalise [c] = [c]) (str_nat n)"
    unfolding list_all_iff
  proof
    fix c assume "c \<in> set (str_nat n)"
    with str_nat_digits have "c \<in> set ''0123456789''" by blast
    then have "c \<in> set ''0123456789.e+-infa''" by auto
    then show "normalise [c] = [c]" by (rule normalise_float_char)
  qed
qed

lemma normalise_float_text: "float_text s \<Longrightarrow> normalise s = s"
  unfolding float_text_def
  by (intro normalise_plain) (auto simp: list_all_iff normalise_float_char simp del: set_simps)

lemma rstrip_float_text:
  assumes "float_text s"
  shows "rstrip s = s"
proof -
  from assms have "s \<noteq> []" and "last s \<in> set ''0123456789.e+-infa''"
    by (auto simp: float_text_def list_all_iff simp del: set_simps)
  then have "\<not> is_space (last s)"
    by (simp only: not_space_float_char not_False_eq_True)
  with \<open>s \<noteq> []\<close> have "dropWhile is_space (rev s) = rev s"
    by (cases s rule: rev_cases) simp_all
  then show ?thesis by (simp add: rstrip_def)
qed

lemma normalise_literals:
  "normalise ''['' = []" "normalise '']'' = []" "normalise '', '' = ''_''"
  "normalise ''_input'' = ''_input''" "normalise ''_batch'' = ''_batch''"
  "normalise ''_mut'' = ''_mut''" "normalise ''_filter_depth'' = ''_filter_depth''"
  "normalise ''_nll'' = ''_nll''" "normalise ''_reparam'' = ''_reparam''"
  "normalise ''_lr'' = ''_lr''" "normalise ''_disc'' = ''_disc''"
  "normalise ''_cont'' = ''_cont''" "normalise ''latent'' = ''latent''"
  "normalise ''gaussian'' = ''gaussian''" "normalise ''bernoulli'' = ''bernoulli''"
  "normalise ''isotropic_gaussian'' = ''isotropic_gaussian''"
  "normalise ''discrete'' = ''discrete''" "normalise ''mixture'' = ''mixture''"
  by code_simp+

lemma normalise_join:
  "normalise (join '', '' ss) = join ''_'' (map normalise ss)"
  by (induction "'', ''" ss rule: join.induct)
     (simp_all only: join.simps list.map normalise_Nil normalise_append normalise_literals)

lemma normalise_str_list: "normalise (str_list xs) = join ''_'' (map str_nat xs)"
proof -
  have "map normalise (map str_nat xs) = map str_nat xs"
    by (simp add: normalise_str_nat)
  then show ?thesis
    by (simp only: str_list_def normalise_append normalise_literals normalise_join
        append_Nil append_Nil2)
qed

lemma join_Cons: "join sep (x # xs) = x @ (if xs = [] then [] else sep @ join sep xs)"
  by (cases xs) simp_all

lemma split_at_separator:
  assumes "CHR ''_'' \<notin> set u" and "CHR ''_'' \<notin> set v"
    and "r = [] \<or> hd r = CHR ''_''" and "r' = [] \<or> hd r' = CHR ''_''"
    and "u @ r = v @ r'"
  shows "u = v \<and> r = r'"
proof -
  have t: "takeWhile (\<lambda>c. c \<noteq> CHR ''_'') (w @ q) = w"
    if "CHR ''_'' \<notin> set w" "q = [] \<or> hd q = CHR ''_''" for w q
  proof -
    from that(2) have "takeWhile (\<lambda>c. c \<noteq> CHR ''_'') q = []"
      by (cases q) auto
    moreover from that(1) have "\<And>x. x \<in> set w \<Longrightarrow> x \<noteq> CHR ''_''" by auto
    ultimately show ?thesis by (simp add: takeWhile_append2)
  qed
  have "u = takeWhile (\<lambda>c. c \<noteq> CHR ''_'') (u @ r)"
    by (rule t [OF assms(1,3), symmetric])
  also have "\<dots> = takeWhile (\<lambda>c. c \<noteq> CHR ''_'') (v @ r')"
    by (simp only: assms(5))
  also have "\<dots> = v"
    by (rule t [OF assms(2,4)])
  finally have "u = v" .
  with assms(5) show ?thesis by simp
qed

lemma join_inj:
  assumes "\<forall>s\<in>set xs. s \<noteq> [] \<and> CHR ''_'' \<notin> set s"
    and "\<forall>s\<in>set ys. s \<noteq> [] \<and> CHR ''_'' \<notin> set s"
    and "join ''_'' xs = join ''_'' ys"
  shows "xs = ys"
  using assms
proof (induction xs arbitrary: ys)
  case Nil
  then show ?case
    by (cases ys) (auto simp: join_Cons)
next
  case (Cons x xs)
  show ?case
  proof (cases ys)
    case Nil
    with Cons.prems show ?thesis by (auto simp: join_Cons)
  next
    case ys: (Cons y ys')
    let ?r = "if xs = [] then [] else ''_'' @ join ''_'' xs"
    let ?r' = "if ys' = [] then [] else ''_'' @ join ''_'' ys'"
    have eq: "x @ ?r = y @ ?r'"
      using Cons.prems(3) unfolding ys join_Cons .
    have "x = y \<and> ?r = ?r'"
      using Cons.prems(1,2) eq unfolding ys
      by (intro split_at_separator) auto
    then have xy: "x = y" and r: "?r = ?r'" by blast+
    have "xs = ys'"
    proof (cases "xs = []")
      case True
      with r show ?thesis by (auto split: if_splits)
    next
      case False
      with r have "ys' \<noteq> []" and "join ''_'' xs = join ''_'' ys'"
        by (auto split: if_splits)
      then show ?thesis
        using Cons.prems(1,2) unfolding ys by (intro Cons.IH) auto
    qed
    with xy ys show ?thesis by simp
  qed
qed

lemma str_nat_no_separator: "CHR ''_'' \<notin> set (str_nat n)"
  using str_nat_digits [of n] by auto

lemma normalise_str_list_inj:
  assumes "normalise (str_list xs) = normalise (str_list ys)"
  shows "xs = ys"
proof -
  from assms have "join ''_'' (map str_nat xs) = join ''_'' (map str_nat ys)"
    by (simp only: normalise_str_list)
  then have "map str_nat xs = map str_nat ys"
    by (intro join_inj) (auto simp: str_nat_nonempty str_nat_no_separator)
  moreover have "inj str_nat"
    by (rule injI) (rule str_nat_inj)
  ultimately show ?thesis
    by (simp add: inj_map_eq_map)
qed

lemma dropWhile_append_stop: "\<not> P y \<Longrightarrow> dropWhile P (xs @ y # ys) = dropWhile P xs @ y # ys"
  by (induction xs) auto

lemma py_strip_framed:
  assumes "\<not> is_space a" and "\<not> is_space b"
  shows "py_strip (a # M @ b # f) = a # M @ b # rstrip f"
proof -
  have "rev (a # M @ b # f) = rev f @ b # (rev M @ [a])" by simp
  then have "dropWhile is_space (rev (a # M @ b # f)) = dropWhile is_space (rev f) @ b # (rev M @ [a])"
    by (simp only: dropWhile_append_stop [of is_space b, OF assms(2)])
  then show ?thesis
    using assms(1) by (simp add: py_strip_def rstrip_def)
qed

lemma frame_chars: "\<not> is_space CHR ''_''" "\<not> is_space CHR ''r''"
  by code_simp+

lemma py_strip_full:
  "py_strip (''_input'' @ M @ ''_lr'' @ f) = ''_input'' @ M @ ''_lr'' @ rstrip f"
proof -
  have "''_input'' @ M @ ''_lr'' @ f = CHR ''_'' # (''input'' @ M @ ''_l'') @ CHR ''r'' # f"
    by simp
  then show ?thesis
    by (simp only: py_strip_framed [OF frame_chars]) simp
qed

lemma get_name_segments:
  "get_name self =
     ''vae_'' @ task (config self) @ ''_input'' @ normalise (str_list (input_shape self)) @
     (if reparam_type (config self) = ''mixture''
      then ''_disc'' @ str_nat (discrete_size (config self)) @
           ''_cont'' @ str_nat (continuous_size (config self))
      else ''latent'' @ str_nat (continuous_size (config self))) @
     ''_batch'' @ str_nat (batch_size (config self)) @
     ''_mut'' @ normalise (fstr (mut_reg (config self))) @
     ''_filter_depth'' @ str_nat (filter_depth (config self)) @
     ''_nll'' @ normalise (nll_type (config self)) @
     ''_reparam'' @ normalise (reparam_type (config self)) @
     ''_lr'' @ normalise (rstrip (fstr (lr (config self))))"
proof -
  define cfg where "cfg = config self"
  define param_str where "param_str =
     (if reparam_type cfg = ''mixture''
      then ''_disc'' @ str_nat (discrete_size cfg) @ ''_cont'' @ str_nat (continuous_size cfg)
      else ''latent'' @ str_nat (continuous_size cfg))"
  define M where "M = str_list (input_shape self) @ param_str @
            ''_batch'' @ str_nat (batch_size cfg) @
            ''_mut'' @ fstr (mut_reg cfg) @
            ''_filter_depth'' @ str_nat (filter_depth cfg) @
            ''_nll'' @ nll_type cfg @
            ''_reparam'' @ reparam_type cfg"
  have full: "''_input'' @ str_list (input_shape self) @ param_str @
            ''_batch'' @ str_nat (batch_size cfg) @
            ''_mut'' @ fstr (mut_reg cfg) @
            ''_filter_depth'' @ str_nat (filter_depth cfg) @
            ''_nll'' @ nll_type cfg @
            ''_reparam'' @ reparam_type cfg @
            ''_lr'' @ fstr (lr cfg) = ''_input'' @ M @ ''_lr'' @ fstr (lr cfg)"
    by (simp add: M_def)
  have "get_name self = ''vae_'' @ task cfg @ normalise (py_strip (''_input'' @ M @ ''_lr'' @ fstr (lr cfg)))"
    unfolding get_name_def Let_def normalise_def [symmetric] cfg_def [symmetric]
      param_str_def [symmetric] full ..
  also have "\<dots> = ''vae_'' @ task cfg @ normalise (''_input'' @ M @ ''_lr'' @ rstrip (fstr (lr cfg)))"
    by (simp only: py_strip_full)
  also have "normalise (''_input'' @ M @ ''_lr'' @ rstrip (fstr (lr cfg))) =
       ''_input'' @ normalise M @ ''_lr'' @ normalise (rstrip (fstr (lr cfg)))"
    by (simp only: normalise_append normalise_literals)
  also have "normalise param_str = param_str"
    unfolding param_str_def
    by (simp only: if_distrib [of normalise] normalise_append normalise_literals normalise_str_nat)
  then have "normalise M = normalise (str_list (input_shape self)) @ param_str @
            ''_batch'' @ str_nat (batch_size cfg) @
            ''_mut'' @ normalise (fstr (mut_reg cfg)) @
            ''_filter_depth'' @ str_nat (filter_depth cfg) @
            ''_nll'' @ normalise (nll_type cfg) @
            ''_reparam'' @ normalise (reparam_type cfg)"
    by (simp only: M_def normalise_append normalise_literals normalise_str_nat)
  finally show ?thesis
    by (simp add: cfg_def param_str_def)
qed

lemma str_nat_eq_iff: "str_nat n = str_nat m \<longleftrightarrow> n = m"
  using str_nat_inj by blast

lemma name_same:
  assumes "input_shape b = input_shape a" and "config b = config a"
  shows "get_name b = get_name a"
  using assms by (simp add: get_name_def)

lemma name_input_shape:
  assumes "config b = config a" and "input_shape b \<noteq> input_shape a"
  shows "get_name b \<noteq> get_name a"
  using assms normalise_str_list_inj [of "input_shape b" "input_shape a"]
  by (auto simp: get_name_segments)

lemma name_continuous_size:
  assumes "input_shape b = input_shape a"
    and "config b = (config a)\<lparr>continuous_size := n\<rparr>" and "n \<noteq> continuous_size (config a)"
  shows "get_name b \<noteq> get_name a"
  using assms by (simp add: get_name_segments str_nat_eq_iff)

lemma name_discrete_size_mixture:
  assumes "input_shape b = input_shape a"
    and "config b = (config a)\<lparr>discrete_size := n\<rparr>" and "n \<noteq> discrete_size (config a)"
    and "reparam_type (config a) = ''mixture''"
  shows "get_name b \<noteq> get_name a"
  using assms by (simp add: get_name_segments str_nat_eq_iff)

lemma name_discrete_size_other:
  assumes "input_shape b = input_shape a"
    and "config b = (config a)\<lparr>discrete_size := n\<rparr>"
    and "reparam_type (config a) \<noteq> ''mixture''"
  shows "get_name b = get_name a"
  using assms by (simp add: get_name_segments)

lemma name_batch_size:
  assumes "input_shape b = input_shape a"
    and "config b = (config a)\<lparr>batch_size := n\<rparr>" and "n \<noteq> batch_size (config a)"
  shows "get_name b \<noteq> get_name a"
  using assms by (simp add: get_name_segments str_nat_eq_iff)

lemma name_filter_depth:
  assumes "input_shape b = input_shape a"
    and "config b = (config a)\<lparr>filter_depth := n\<rparr>" and "n \<noteq> filter_depth (config a)"
  shows "get_name b \<noteq> get_name a"
  using assms by (simp add: get_name_segments str_nat_eq_iff)

lemma name_nll_type:
  assumes "input_shape b = input_shape a"
    and "config b = (config a)\<lparr>nll_type := t\<rparr>" and "t \<noteq> nll_type (config a)"
    and "t \<in> {''gaussian'', ''bernoulli''}"
    and "nll_type (config a) \<in> {''gaussian'', ''bernoulli''}"
  shows "get_name b \<noteq> get_name a"
proof -
  have "normalise t \<noteq> normalise (nll_type (config a))"
    using assms(3,4,5) by (auto simp only: normalise_literals insert_iff empty_iff)
  then show ?thesis
    using assms(1,2) by (simp add: get_name_segments)
qed

lemma name_reparam_type:
  assumes "input_shape b = input_shape a"
    and "config b = (config a)\<lparr>reparam_type := t\<rparr>" and "t \<noteq> reparam_type (config a)"
    and "t \<in> {''isotropic_gaussian'', ''discrete'', ''mixture''}"
    and "reparam_type (config a) \<in> {''isotropic_gaussian'', ''discrete'', ''mixture''}"
  shows "get_name b \<noteq> get_name a"
proof -
  have n: "normalise t = t" "normalise (reparam_type (config a)) = reparam_type (config a)"
    using assms(4,5) by (auto simp only: normalise_literals insert_iff empty_iff)
  show ?thesis
    unfolding get_name_segments [of a] get_name_segments [of b] n assms(1,2)
    using assms(3,4,5) n by (auto simp: str_nat_eq_iff)
qed

lemma name_mut_reg:
  assumes "input_shape b = input_shape a"
    and "config b = (config a)\<lparr>mut_reg := m\<rparr>" and "fstr m \<noteq> fstr (mut_reg (config a))"
    and "float_text (fstr m)" and "float_text (fstr (mut_reg (config a)))"
  shows "get_name b \<noteq> get_name a"
  using assms by (simp add: get_name_segments normalise_float_text)

lemma name_lr:
  assumes "input_shape b = input_shape a"
    and "config b = (config a)\<lparr>lr := m\<rparr>" and "fstr m \<noteq> fstr (lr (config a))"
    and "float_text (fstr m)" and "float_text (fstr (lr (config a)))"
  shows "get_name b \<noteq> get_name a"
  using assms by (simp add: get_name_segments normalise_float_text rstrip_float_text)

lemma example_float_texts:
  "float_text ''0.3''" "float_text ''0.5''" "float_text ''0.001''" "float_text ''0.01''"
  by code_simp+

text \<open>
  What \<open>get_name\<close> does distinguish.  It depends on the input shape and the configuration
  only, so two calls on one object give one string.  Changing one of the input shape,
  \<open>continuous_size\<close>, \<open>batch_size\<close>, \<open>filter_depth\<close>, \<open>nll_type\<close> or \<open>reparam_type\<close> (among
  their documented values), \<open>mut_reg\<close> or \<open>lr\<close> (to a value that prints differently), and
  nothing else, changes the string.  Changing \<open>discrete_size\<close> changes the string when
  \<open>reparam_type\<close> is \<open>mixture\<close>; for every other \<open>reparam_type\<close> the string does not
  contain \<open>discrete_size\<close> and stays the same.
\<close>

theorem get_name_distinguishes:
  "(input_shape b = input_shape a \<and> config b = config a \<longrightarrow> get_name b = get_name a) \<and>
   (config b = config a \<and> input_shape b \<noteq> input_shape a \<longrightarrow> get_name b \<noteq> get_name a) \<and>
   (input_shape b = input_shape a \<longrightarrow>
      (config b = (config a)\<lparr>continuous_size := n\<rparr> \<and> n \<noteq> continuous_size (config a) \<longrightarrow>
         get_name b \<noteq> get_name a) \<and>
      (config b = (config a)\<lparr>discrete_size := n\<rparr> \<and> n \<noteq> discrete_size (config a) \<and>
       reparam_type (config a) = ''mixture'' \<longrightarrow>
         get_name b \<noteq> get_name a) \<and>
      (config b = (config a)\<lparr>discrete_size := n\<rparr> \<and> reparam_type (config a) \<noteq> ''mixture'' \<longrightarrow>
         get_name b = get_name a) \<and>
      (config b = (config a)\<lparr>batch_size := n\<rparr> \<and> n \<noteq> batch_size (config a) \<longrightarrow>
         get_name b \<noteq> get_name a) \<and>
      (config b = (config a)\<lparr>filter_depth := n\<rparr> \<and> n \<noteq> filter_depth (config a) \<longrightarrow>
         get_name b \<noteq> get_name a) \<and>
      (config b = (config a)\<lparr>nll_type := t\<rparr> \<and> t \<noteq> nll_type (config a) \<and>
       t \<in> {''gaussian'', ''bernoulli''} \<and> nll_type (config a) \<in> {''gaussian'', ''bernoulli''} \<longrightarrow>
         get_name b \<noteq> get_name a) \<and>
      (config b = (config a)\<lparr>reparam_type := t\<rparr> \<and> t \<noteq> reparam_type (config a) \<and>
       t \<in> {''isotropic_gaussian'', ''discrete'', ''mixture''} \<and>
       reparam_type (config a) \<in> {''isotropic_gaussian'', ''discrete'', ''mixture''} \<longrightarrow>
         get_name b \<noteq> get_name a) \<and>
      (config b = (config a)\<lparr>mut_reg := m\<rparr> \<and> fstr m \<noteq> fstr (mut_reg (config a)) \<and>
       float_text (fstr m) \<and> float_text (fstr (mut_reg (config a))) \<longrightarrow>
         get_name b \<noteq> get_name a) \<and>
      (config b = (config a)\<lparr>lr := m\<rparr> \<and> fstr m \<noteq> fstr (lr (config a)) \<and>
       float_text (fstr m) \<and> float_text (fstr (lr (config a))) \<longrightarrow>
         get_name b \<noteq> get_name a))"
proof (intro conjI impI; (elim conjE)?)
  show "get_name b = get_name a" if "input_shape b = input_shape a" "config b = config a"
    using that by (rule name_same)
  show "get_name b \<noteq> get_name a" if "config b = config a" "input_shape b \<noteq> input_shape a"
    using that by (rule name_input_shape)
  show "get_name b \<noteq> get_name a"
    if "input_shape b = input_shape a" "config b = (config a)\<lparr>continuous_size := n\<rparr>"
      "n \<noteq> continuous_size (config a)"
    using that by (rule name_continuous_size)
  show "get_name b \<noteq> get_name a"
    if "input_shape b = input_shape a" "config b = (config a)\<lparr>discrete_size := n\<rparr>"
      "n \<noteq> discrete_size (config a)" "reparam_type (config a) = ''mixture''"
    using that by (rule name_discrete_size_mixture)
  show "get_name b = get_name a"
    if "input_shape b = input_shape a" "config b = (config a)\<lparr>discrete_size := n\<rparr>"
      "reparam_type (config a) \<noteq> ''mixture''"
    using that by (rule name_discrete_size_other)
  show "get_name b \<noteq> get_name a"
    if "input_shape b = input_shape a" "config b = (config a)\<lparr>batch_size := n\<rparr>"
      "n \<noteq> batch_size (config a)"
    using that by (rule name_batch_size)
  show "get_name b \<noteq> get_name a"
    if "input_shape b = input_shape a" "config b = (config a)\<lparr>filter_depth := n\<rparr>"
      "n \<noteq> filter_depth (config a)"
    using that by (rule name_filter_depth)
  show "get_name b \<noteq> get_name a"
    if "input_shape b = input_shape a" "config b = (config a)\<lparr>nll_type := t\<rparr>"
      "t \<noteq> nll_type (config a)" "t \<in> {''gaussian'', ''bernoulli''}"
      "nll_type (config a) \<in> {''gaussian'', ''bernoulli''}"
    using that by (rule name_nll_type)
  show "get_name b \<noteq> get_name a"
    if "input_shape b = input_shape a" "config b = (config a)\<lparr>reparam_type := t\<rparr>"
      "t \<noteq> reparam_type (config a)" "t \<in> {''isotropic_gaussian'', ''discrete'', ''mixture''}"
      "reparam_type (config a) \<in> {''isotropic_gaussian'', ''discrete'', ''mixture''}"
    using that by (rule name_reparam_type)
  show "get_name b \<noteq> get_name a"
    if "input_shape b = input_shape a" "config b = (config a)\<lparr>mut_reg := m\<rparr>"
      "fstr m \<noteq> fstr (mut_reg (config a))" "float_text (fstr m)"
      "float_text (fstr (mut_reg (config a)))"
    using that by (rule name_mut_reg)
  show "get_name b \<noteq> get_name a"
    if "input_shape b = input_shape a" "config b = (config a)\<lparr>lr := m\<rparr>"
      "fstr m \<noteq> fstr (lr (config a))" "float_text (fstr m)"
      "float_text (fstr (lr (config a)))"
    using that by (rule name_lr)
qed

theorem get_name_distinguishes_witness:
  "\<exists>a. VAE_init [1, 28, 28] example_config = Inr a \<and>
     (\<exists>b. VAE_init [3, 32, 32] example_config = Inr b \<and> get_name b \<noteq> get_name a) \<and>
     (\<exists>b. VAE_init [1, 28, 28] (example_config\<lparr>continuous_size := 16\<rparr>) = Inr b \<and>
          get_name b \<noteq> get_name a) \<and>
     (\<exists>b. VAE_init [1, 28, 28] (example_config\<lparr>discrete_size := 20\<rparr>) = Inr b \<and>
          get_name b \<noteq> get_name a) \<and>
     (\<exists>b. VAE_init [1, 28, 28] (example_config\<lparr>batch_size := 128\<rparr>) = Inr b \<and>
          get_name b \<noteq> get_name a) \<and>
     (\<exists>b. VAE_init [1, 28, 28] (example_config\<lparr>filter_depth := 64\<rparr>) = Inr b \<and>
          get_name b \<noteq> get_name a) \<and>
     (\<exists>b. VAE_init [1, 28, 28] (example_config\<lparr>nll_type := ''gaussian''\<rparr>) = Inr b \<and>
          get_name b \<noteq> get_name a) \<and>
     (\<exists>b. VAE_init [1, 28, 28] (example_config\<lparr>reparam_type := ''discrete''\<rparr>) = Inr b \<and>
          get_name b \<noteq> get_name a) \<and>
     (\<exists>b. VAE_init [1, 28, 28] (example_config\<lparr>mut_reg := \<lparr>fval = 1 / 2, fstr = ''0.5''\<rparr>\<rparr>) = Inr b \<and>
          get_name b \<noteq> get_name a) \<and>
     (\<exists>b. VAE_init [1, 28, 28] (example_config\<lparr>lr := \<lparr>fval = 1 / 100, fstr = ''0.01''\<rparr>\<rparr>) = Inr b \<and>
          get_name b \<noteq> get_name a)"
proof -
  obtain a where a: "VAE_init [1, 28, 28] example_config = Inr a"
    and ca: "config a = example_config" and sa: "input_shape a = [1, 28, 28]"
    by (rule constructed [of "[1, 28, 28]" example_config]) (simp_all add: example_config_def)
  have 1: "\<exists>b. VAE_init [3, 32, 32] example_config = Inr b \<and> get_name b \<noteq> get_name a"
  proof -
    obtain b where b: "VAE_init [3, 32, 32] example_config = Inr b"
      and cb: "config b = example_config" and sb: "input_shape b = [3, 32, 32]"
      by (rule constructed [of "[3, 32, 32]" example_config]) (simp_all add: example_config_def)
    from get_name_distinguishes [of b a] have "get_name b \<noteq> get_name a"
      by (simp add: ca cb sa sb)
    with b show ?thesis by blast
  qed
  have step: "\<exists>b. VAE_init [1, 28, 28] cfg = Inr b \<and> get_name b \<noteq> get_name a"
    if valid: "reparam_type cfg \<in> {''isotropic_gaussian'', ''discrete'', ''mixture''}"
        "layer_type cfg \<in> {''conv'', ''dense''}"
      and diff: "\<And>b::vae. input_shape b = input_shape a \<Longrightarrow> config b = cfg \<Longrightarrow> get_name b \<noteq> get_name a"
    for cfg
  proof -
    obtain b where b: "VAE_init [1, 28, 28] cfg = Inr b"
      and cb: "config b = cfg" and sb: "input_shape b = [1, 28, 28]"
      using valid by (auto intro: constructed [of "[1, 28, 28]" cfg])
    from diff [of b] sb sa cb have "get_name b \<noteq> get_name a" by simp
    with b show ?thesis by blast
  qed
  have 2: "\<exists>b. VAE_init [1, 28, 28] (example_config\<lparr>continuous_size := 16\<rparr>) = Inr b \<and>
          get_name b \<noteq> get_name a"
  proof (rule step)
    fix b :: vae assume "input_shape b = input_shape a" "config b = example_config\<lparr>continuous_size := 16\<rparr>"
    with get_name_distinguishes [of b a 16] show "get_name b \<noteq> get_name a"
      by (simp add: ca example_config_def)
  qed (simp_all add: example_config_def)
  have 3: "\<exists>b. VAE_init [1, 28, 28] (example_config\<lparr>discrete_size := 20\<rparr>) = Inr b \<and>
          get_name b \<noteq> get_name a"
  proof (rule step)
    fix b :: vae assume "input_shape b = input_shape a" "config b = example_config\<lparr>discrete_size := 20\<rparr>"
    with get_name_distinguishes [of b a 20] show "get_name b \<noteq> get_name a"
      by (simp add: ca example_config_def)
  qed (simp_all add: example_config_def)
  have 4: "\<exists>b. VAE_init [1, 28, 28] (example_config\<lparr>batch_size := 128\<rparr>) = Inr b \<and>
          get_name b \<noteq> get_name a"
  proof (rule step)
    fix b :: vae assume "input_shape b = input_shape a" "config b = example_config\<lparr>batch_size := 128\<rparr>"
    with get_name_distinguishes [of b a 128] show "get_name b \<noteq> get_name a"
      by (simp add: ca example_config_def)
  qed (simp_all add: example_config_def)
  have 5: "\<exists>b. VAE_init [1, 28, 28] (example_config\<lparr>filter_depth := 64\<rparr>) = Inr b \<and>
          get_name b \<noteq> get_name a"
  proof (rule step)
    fix b :: vae assume "input_shape b = input_shape a" "config b = example_config\<lparr>filter_depth := 64\<rparr>"
    with get_name_distinguishes [of b a 64] show "get_name b \<noteq> get_name a"
      by (simp add: ca example_config_def)
  qed (simp_all add: example_config_def)
  have 6: "\<exists>b. VAE_init [1, 28, 28] (example_config\<lparr>nll_type := ''gaussian''\<rparr>) = Inr b \<and>
          get_name b \<noteq> get_name a"
  proof (rule step)
    fix b :: vae assume "input_shape b = input_shape a" "config b = example_config\<lparr>nll_type := ''gaussian''\<rparr>"
    with get_name_distinguishes [of b a _ "''gaussian''"] show "get_name b \<noteq> get_name a"
      by (simp add: ca example_config_def)
  qed (simp_all add: example_config_def)
  have 7: "\<exists>b. VAE_init [1, 28, 28] (example_config\<lparr>reparam_type := ''discrete''\<rparr>) = Inr b \<and>
          get_name b \<noteq> get_name a"
  proof (rule step)
    fix b :: vae assume "input_shape b = input_shape a" "config b = example_config\<lparr>reparam_type := ''discrete''\<rparr>"
    with get_name_distinguishes [of b a _ "''discrete''"] show "get_name b \<noteq> get_name a"
      by (simp add: ca example_config_def)
  qed (simp_all add: example_config_def)
  have 8: "\<exists>b. VAE_init [1, 28, 28] (example_config\<lparr>mut_reg := \<lparr>fval = 1 / 2, fstr = ''0.5''\<rparr>\<rparr>) = Inr b \<and>
          get_name b \<noteq> get_name a"
  proof (rule step)
    fix b :: vae assume "input_shape b = input_shape a"
      "config b = example_config\<lparr>mut_reg := \<lparr>fval = 1 / 2, fstr = ''0.5''\<rparr>\<rparr>"
    with get_name_distinguishes [of b a _ _ "\<lparr>fval = 1 / 2, fstr = ''0.5''\<rparr>"]
    show "get_name b \<noteq> get_name a"
      by (simp add: ca example_config_def example_float_texts)
  qed (simp_all add: example_config_def)
  have 9: "\<exists>b. VAE_init [1, 28, 28] (example_config\<lparr>lr := \<lparr>fval = 1 / 100, fstr = ''0.01''\<rparr>\<rparr>) = Inr b \<and>
          get_name b \<noteq> get_name a"
  proof (rule step)
    fix b :: vae assume "input_shape b = input_shape a"
      "config b = example_config\<lparr>lr := \<lparr>fval = 1 / 100, fstr = ''0.01''\<rparr>\<rparr>"
    with get_name_distinguishes [of b a _ _ "\<lparr>fval = 1 / 100, fstr = ''0.01''\<rparr>"]
    show "get_name b \<noteq> get_name a"
      by (simp add: ca example_config_def example_float_texts)
  qed (simp_all add: example_config_def)
  show ?thesis
    by (rule exI [of _ a]) (intro conjI a 1 2 3 4 5 6 7 8 9)
qed

text \<open>
  Claim C6.  The claim is that changing \<open>discrete_size\<close> changes the name for every
  \<open>reparam_type\<close>.  For \<open>reparam_type = discrete\<close> the models with 10 and with 20
  categories have different encoders and the same name: the branch of \<open>get_name\<close> for a
  \<open>reparam_type\<close> other than \<open>mixture\<close> prints \<open>continuous_size\<close> and leaves
  \<open>discrete_size\<close> out.
\<close>

theorem get_name_discrete_size_collision:
  "map_sum id get_name
     (VAE_init [1, 28, 28] (example_config\<lparr>reparam_type := ''discrete'', discrete_size := 10\<rparr>))
     = Inr ''vae_mnist_input1_28_28latent8_batch64_mut0.3_filter_depth32_nllbernoulli_reparamdiscrete_lr0.001'' \<and>
   map_sum id get_name
     (VAE_init [1, 28, 28] (example_config\<lparr>reparam_type := ''discrete'', discrete_size := 20\<rparr>))
     = Inr ''vae_mnist_input1_28_28latent8_batch64_mut0.3_filter_depth32_nllbernoulli_reparamdiscrete_lr0.001'' \<and>
   map_sum id encoder
     (VAE_init [1, 28, 28] (example_config\<lparr>reparam_type := ''discrete'', discrete_size := 10\<rparr>))
     \<noteq> map_sum id encoder
     (VAE_init [1, 28, 28] (example_config\<lparr>reparam_type := ''discrete'', discrete_size := 20\<rparr>))"
  by code_simp

end
